theory Spec2Isabelle
  imports Main "HOL-Library.Word"
begin

unbundle bit_operations_syntax

section \<open>Severity levels and level parsing\<close>

text \<open>
  \<^verbatim>\<open>zapcore.Level\<close> is a signed 8-bit integer; the seven named levels are
  \<open>-1 .. 5\<close>. No arithmetic that could leave the 8-bit range is performed on levels
  by the code modelled here, so a level is an \<open>int\<close>.
\<close>

type_synonym Level = int

definition DebugLevel :: Level where "DebugLevel = - 1"
definition InfoLevel :: Level where "InfoLevel = 0"
definition WarnLevel :: Level where "WarnLevel = 1"
definition ErrorLevel :: Level where "ErrorLevel = 2"
definition DPanicLevel :: Level where "DPanicLevel = 3"
definition PanicLevel :: Level where "PanicLevel = 4"
definition FatalLevel :: Level where "FatalLevel = 5"

definition minLevel :: Level where "minLevel = DebugLevel"
definition maxLevel :: Level where "maxLevel = FatalLevel"

text \<open>
  \<^verbatim>\<open>parseLevel\<close> is the same function, line for line, in the root package and in
  \<^verbatim>\<open>pkg/logger\<close>: a switch over the string with \<^verbatim>\<open>default: InfoLevel\<close>.
\<close>

definition parseLevel :: "string \<Rightarrow> Level" where
  "parseLevel level =
     (if level = ''debug'' then DebugLevel
      else if level = ''info'' then InfoLevel
      else if level = ''warn'' \<or> level = ''warning'' then WarnLevel
      else if level = ''error'' then ErrorLevel
      else if level = ''dpanic'' then DPanicLevel
      else if level = ''panic'' then PanicLevel
      else if level = ''fatal'' then FatalLevel
      else InfoLevel)"

section \<open>Configuration\<close>

text \<open>
  \<^verbatim>\<open>SamplingConfig\<close> holds two Go \<^verbatim>\<open>int\<close>s. \<^verbatim>\<open>Sampling\<close> is a pointer in both
  \<^verbatim>\<open>Config\<close> structs: \<open>None\<close> is the nil pointer.
\<close>

record SamplingConfig =
  Initial :: int
  Thereafter :: int

text \<open>The root package's \<^verbatim>\<open>Config\<close> (\<^verbatim>\<open>config.go\<close>).\<close>

record Config =
  Level :: string
  Environment :: string
  ExportPath :: string
  Sampling :: "SamplingConfig option"
  DisableCaller :: bool
  DisableStacktrace :: bool
  StacktraceLevel :: string

text \<open>The \<^verbatim>\<open>Config\<close> of \<^verbatim>\<open>pkg/logger\<close> (\<^verbatim>\<open>pkg/logger/config.go\<close>).\<close>

record pkg_Config =
  pkg_Level :: string
  pkg_Environment :: string
  pkg_OutputPaths :: "string list"
  pkg_ErrorOutputPaths :: "string list"
  pkg_Sampling :: "SamplingConfig option"
  pkg_DisableCaller :: bool
  pkg_DisableStacktrace :: bool
  pkg_StacktraceLevel :: string

definition EnvLocal :: string where "EnvLocal = ''local''"
definition EnvProd :: string where "EnvProd = ''prod''"
definition EnvDev :: string where "EnvDev = ''dev''"

section \<open>Encoders\<close>

datatype LevelEncoder = CapitalColorLevelEncoder | LowercaseLevelEncoder
datatype TimeEncoder = ISO8601TimeEncoder | RFC3339NanoTimeEncoder
datatype DurationEncoder = StringDurationEncoder | MillisDurationEncoder
datatype CallerEncoder = ShortCallerEncoder | RootRelativeCallerEncoder

record EncoderConfig =
  TimeKey :: string
  LevelKey :: string
  NameKey :: string
  CallerKey :: string
  FunctionKey :: string
  MessageKey :: string
  StacktraceKey :: string
  LineEnding :: string
  EncodeLevel :: LevelEncoder
  EncodeTime :: TimeEncoder
  EncodeDuration :: DurationEncoder
  EncodeCaller :: CallerEncoder

definition OmitKey :: string where "OmitKey = ''''"
definition DefaultLineEnding :: string where "DefaultLineEnding = [CHR 0x0A]"

text \<open>Root package: \<^verbatim>\<open>consoleEncoderConfig\<close> and \<^verbatim>\<open>jsonEncoderConfig\<close>.\<close>

definition consoleEncoderConfig :: EncoderConfig where
  "consoleEncoderConfig =
     \<lparr>TimeKey = ''ts'', LevelKey = ''level'', NameKey = ''logger'', CallerKey = ''caller'',
      FunctionKey = OmitKey, MessageKey = ''msg'', StacktraceKey = ''stacktrace'',
      LineEnding = DefaultLineEnding, EncodeLevel = CapitalColorLevelEncoder,
      EncodeTime = ISO8601TimeEncoder, EncodeDuration = StringDurationEncoder,
      EncodeCaller = RootRelativeCallerEncoder\<rparr>"

definition jsonEncoderConfig :: EncoderConfig where
  "jsonEncoderConfig =
     \<lparr>TimeKey = ''timestamp'', LevelKey = ''level'', NameKey = ''logger'',
      CallerKey = ''caller'', FunctionKey = ''function'', MessageKey = ''message'',
      StacktraceKey = ''stacktrace'', LineEnding = DefaultLineEnding,
      EncodeLevel = LowercaseLevelEncoder, EncodeTime = RFC3339NanoTimeEncoder,
      EncodeDuration = MillisDurationEncoder, EncodeCaller = RootRelativeCallerEncoder\<rparr>"

text \<open>\<^verbatim>\<open>pkg/logger\<close>: \<^verbatim>\<open>newEncoderConfig(env)\<close>.\<close>

definition pkg_newEncoderConfig :: "string \<Rightarrow> EncoderConfig" where
  "pkg_newEncoderConfig env =
     (if env = ''development'' then
        \<lparr>TimeKey = ''ts'', LevelKey = ''level'', NameKey = ''logger'', CallerKey = ''caller'',
         FunctionKey = OmitKey, MessageKey = ''msg'', StacktraceKey = ''stacktrace'',
         LineEnding = DefaultLineEnding, EncodeLevel = CapitalColorLevelEncoder,
         EncodeTime = ISO8601TimeEncoder, EncodeDuration = StringDurationEncoder,
         EncodeCaller = ShortCallerEncoder\<rparr>
      else
        \<lparr>TimeKey = ''timestamp'', LevelKey = ''level'', NameKey = ''logger'',
         CallerKey = ''caller'', FunctionKey = ''function'', MessageKey = ''message'',
         StacktraceKey = ''stacktrace'', LineEnding = DefaultLineEnding,
         EncodeLevel = LowercaseLevelEncoder, EncodeTime = RFC3339NanoTimeEncoder,
         EncodeDuration = MillisDurationEncoder, EncodeCaller = ShortCallerEncoder\<rparr>)"

text \<open>
  An encoder is one of zap's two presets applied to a configuration:
  \<^verbatim>\<open>zapcore.NewConsoleEncoder(cfg)\<close> or \<^verbatim>\<open>zapcore.NewJSONEncoder(cfg)\<close>.
\<close>

datatype Encoder = NewConsoleEncoder EncoderConfig | NewJSONEncoder EncoderConfig

fun is_console :: "Encoder \<Rightarrow> bool" where
  "is_console (NewConsoleEncoder c) = True"
| "is_console (NewJSONEncoder c) = False"

definition pkg_newEncoder :: "string \<Rightarrow> EncoderConfig \<Rightarrow> Encoder" where
  "pkg_newEncoder env cfg =
     (if env = ''development'' then NewConsoleEncoder cfg else NewJSONEncoder cfg)"

section \<open>The zap library: cores, the atomic level, the sampler, the logger\<close>

text \<open>
  The repository builds its pipeline out of \<^verbatim>\<open>go.uber.org/zap\<close> (v1.27.1 in
  \<^verbatim>\<open>go.mod\<close>). The definitions of this section model the library functions the
  repository calls, after the library's sources (\<^verbatim>\<open>zapcore/core.go\<close>,
  \<^verbatim>\<open>zapcore/tee.go\<close>, \<^verbatim>\<open>zapcore/sampler.go\<close>, \<^verbatim>\<open>level.go\<close>, \<^verbatim>\<open>logger.go\<close>),
  for calls made one after another (no two emitters inside one call at a time).
\<close>

text \<open>
  The fields the repository builds: strings and errors (a key and the text), and the
  skip field, which an encoder writes as nothing.
\<close>

datatype Field = StringField string string | ErrorField string string | SkipField

definition zap_String :: "string \<Rightarrow> string \<Rightarrow> Field" where
  "zap_String k v = StringField k v"

text \<open>\<^verbatim>\<open>zap.Error(err)\<close>: a nil error (here \<open>None\<close>) gives \<^verbatim>\<open>zap.Skip()\<close>.\<close>

definition zap_Error :: "string option \<Rightarrow> Field" where
  "zap_Error err = (case err of None \<Rightarrow> SkipField | Some e \<Rightarrow> ErrorField ''error'' e)"

text \<open>
  A destination: the two standard streams, an opened file, or the \<^verbatim>\<open>io.Writer\<close> passed
  to \<^verbatim>\<open>New\<close> (identified by a number).
\<close>

datatype WriteSyncer = Stdout | Stderr | File string | Writer nat

text \<open>
  A \<^verbatim>\<open>zap.AtomicLevel\<close> is a pointer to an atomic integer: here the address of a cell
  of the store. A sampler's counter table is a pointer too.

  \<^item> \<open>IOCore enc out lvl ctx\<close> is \<^verbatim>\<open>zapcore.NewCore(enc, out, lvl)\<close> with the fields
    \<open>ctx\<close> already added to its encoder by \<^verbatim>\<open>With\<close>;
  \<^item> \<open>MultiCore cs\<close> is the tee of at least two cores;
  \<^item> \<open>Sampler c tick counts first thereafter\<close> is the sampler around \<open>c\<close>.
\<close>

datatype Core =
    NopCore
  | IOCore Encoder WriteSyncer nat "Field list"
  | MultiCore "Core list"
  | Sampler Core int nat "64 word" "64 word"

text \<open>A sink is an \<^verbatim>\<open>ioCore\<close>: encoder, destination, level cell, bound fields.\<close>

record sink =
  sink_enc :: Encoder
  sink_out :: WriteSyncer
  sink_level :: nat
  sink_fields :: "Field list"

text \<open>
  An entry: its time as the \<^verbatim>\<open>int64\<close> that \<^verbatim>\<open>Time.UnixNano()\<close> returns (nanoseconds
  since the epoch, negative before 1970), its level and its message.
\<close>

record Entry =
  ent_Time :: int
  ent_Level :: Level
  ent_Message :: string

text \<open>
  The store: the cells of the atomic levels, the counters of the samplers (indexed by
  the table's address, the level's index and the slot), the next free address, and the
  package variables \<^verbatim>\<open>globalLogger\<close> and \<^verbatim>\<open>globalLevel\<close>. A counter is the pair
  (\<^verbatim>\<open>resetAt\<close>, \<^verbatim>\<open>counter\<close>): nanoseconds since the epoch, and an unsigned 64-bit count.
  The root package and \<^verbatim>\<open>pkg/logger\<close> each have package variables of their own; one
  record type serves both, and no statement below runs the two packages in one store
  (\<^verbatim>\<open>pkg/logger\<close> has no \<^verbatim>\<open>globalLevel\<close>).
\<close>

record zap_Logger =
  core :: Core
  addCaller :: bool
  addStack :: Level

record world =
  levels :: "nat \<Rightarrow> Level"
  counts :: "nat \<times> nat \<times> nat \<Rightarrow> int \<times> 64 word"
  next_addr :: nat
  globalLogger :: "zap_Logger option"
  globalLevel :: "nat option"

text \<open>The store before any logger is built: both package variables are nil.\<close>

definition init_world :: world where
  "init_world =
     \<lparr>levels = (\<lambda>a. 0), counts = (\<lambda>k. (0, 0)), next_addr = 0,
      globalLogger = None, globalLevel = None\<rparr>"

definition NewAtomicLevelAt :: "Level \<Rightarrow> world \<Rightarrow> nat \<times> world" where
  "NewAtomicLevelAt l w =
     (next_addr w, w\<lparr>levels := (levels w)(next_addr w := l), next_addr := Suc (next_addr w)\<rparr>)"

definition AtomicLevel_SetLevel :: "nat \<Rightarrow> Level \<Rightarrow> world \<Rightarrow> world" where
  "AtomicLevel_SetLevel a l w = w\<lparr>levels := (levels w)(a := l)\<rparr>"

definition AtomicLevel_Level :: "nat \<Rightarrow> world \<Rightarrow> Level" where
  "AtomicLevel_Level a w = levels w a"

text \<open>\<^verbatim>\<open>Core.With(fields)\<close>: the sampler's clone keeps the pointer to the same counters.\<close>

fun Core_With :: "Core \<Rightarrow> Field list \<Rightarrow> Core" where
  "Core_With NopCore fs = NopCore"
| "Core_With (IOCore enc out a ctx) fs = IOCore enc out a (ctx @ fs)"
| "Core_With (MultiCore cs) fs = MultiCore (map (\<lambda>c. Core_With c fs) cs)"
| "Core_With (Sampler c tick cnt first thereafter) fs =
     Sampler (Core_With c fs) tick cnt first thereafter"

text \<open>\<^verbatim>\<open>Core.Enabled(lvl)\<close>: an \<^verbatim>\<open>ioCore\<close> asks its atomic level, \<open>lvl >= level\<close>.\<close>

fun Core_Enabled :: "world \<Rightarrow> Core \<Rightarrow> Level \<Rightarrow> bool" where
  "Core_Enabled w NopCore lvl = False"
| "Core_Enabled w (IOCore enc out a ctx) lvl = (levels w a \<le> lvl)"
| "Core_Enabled w (MultiCore cs) lvl = list_ex (\<lambda>c. Core_Enabled w c lvl) cs"
| "Core_Enabled w (Sampler c tick cnt first thereafter) lvl = Core_Enabled w c lvl"

text \<open>\<^verbatim>\<open>zapcore.NewTee\<close>: no core gives the no-op core, one core gives that core.\<close>

fun NewTee :: "Core list \<Rightarrow> Core" where
  "NewTee [] = NopCore"
| "NewTee [c] = c"
| "NewTee cs = MultiCore cs"

text \<open>
  The sampler's hash of the message, \<^verbatim>\<open>fnv32a\<close>, over the bytes of the string in
  32-bit arithmetic; the table has \<^verbatim>\<open>_countersPerLevel = 4096\<close> slots per level.
\<close>

definition fnv32a :: "string \<Rightarrow> 32 word" where
  "fnv32a s = fold (\<lambda>c h. (h XOR of_nat (of_char c)) * 16777619) s 2166136261"

definition countersPerLevel :: nat where "countersPerLevel = 4096"

definition counters_get :: "nat \<Rightarrow> Level \<Rightarrow> string \<Rightarrow> nat \<times> nat \<times> nat" where
  "counters_get cnt lvl k = (cnt, nat (lvl - minLevel), unat (fnv32a k) mod countersPerLevel)"

text \<open>
  Go's \<^verbatim>\<open>int64\<close> addition wraps around: the sum is reduced into \<open>-2^63 .. 2^63 - 1\<close>.
\<close>

definition wrap_int64 :: "int \<Rightarrow> int" where
  "wrap_int64 x = (x + 2 ^ 63) mod 2 ^ 64 - 2 ^ 63"

text \<open>
  \<^verbatim>\<open>counter.IncCheckReset(t, tick)\<close>, with \<open>tn\<close> the \<^verbatim>\<open>int64\<close> of \<^verbatim>\<open>t.UnixNano()\<close>:
  inside the window the counter is incremented (an unsigned 64-bit addition); at or
  after \<^verbatim>\<open>resetAt\<close> the counter restarts at 1 and the window ends at
  \<^verbatim>\<open>tn + tick.Nanoseconds()\<close>, an \<^verbatim>\<open>int64\<close> addition. (The branch for a lost
  compare-and-swap needs a second emitter inside the call.)
\<close>

definition IncCheckReset :: "nat \<times> nat \<times> nat \<Rightarrow> int \<Rightarrow> int \<Rightarrow> world \<Rightarrow> 64 word \<times> world" where
  "IncCheckReset k tn tick w =
     (case counts w k of (resetAfter, c) \<Rightarrow>
        if resetAfter > tn then (c + 1, w\<lparr>counts := (counts w)(k := (resetAfter, c + 1))\<rparr>)
        else (1, w\<lparr>counts := (counts w)(k := (wrap_int64 (tn + tick), 1))\<rparr>))"

text \<open>\<^verbatim>\<open>time.Second\<close> in nanoseconds.\<close>

definition Second :: int where "Second = 1000000000"

text \<open>
  \<^verbatim>\<open>zapcore.NewSamplerWithOptions(core, tick, first, thereafter)\<close>: a fresh, zeroed
  counter table; \<^verbatim>\<open>first\<close> and \<^verbatim>\<open>thereafter\<close> are converted with \<^verbatim>\<open>uint64(...)\<close>.
\<close>

definition NewSamplerWithOptions :: "Core \<Rightarrow> int \<Rightarrow> int \<Rightarrow> int \<Rightarrow> world \<Rightarrow> Core \<times> world" where
  "NewSamplerWithOptions c tick first thereafter w =
     (Sampler c tick (next_addr w) (word_of_int first) (word_of_int thereafter),
      w\<lparr>counts := (\<lambda>(a, i, j). if a = next_addr w then (0, 0) else counts w (a, i, j)),
        next_addr := Suc (next_addr w)\<rparr>)"

text \<open>
  \<^verbatim>\<open>Core.Check(ent, ce)\<close>: the checked entry \<open>ce\<close> is the list of the sinks that will
  write the entry (the nil checked entry is the empty list).

  \<^item> an \<^verbatim>\<open>ioCore\<close> adds itself if its level enables the entry;
  \<^item> a tee asks its cores in order;
  \<^item> the sampler returns at once if the wrapped core does not enable the level;
    for a level in \<open>minLevel .. maxLevel\<close> it counts the entry and drops it when
    \<^verbatim>\<open>n > first && (thereafter == 0 || (n-first)%thereafter != 0)\<close>.
\<close>

fun Core_Check :: "Core \<Rightarrow> Entry \<Rightarrow> sink list \<Rightarrow> world \<Rightarrow> sink list \<times> world"
  and multiCore_Check :: "Core list \<Rightarrow> Entry \<Rightarrow> sink list \<Rightarrow> world \<Rightarrow> sink list \<times> world"
where
  "Core_Check NopCore ent ce w = (ce, w)"
| "Core_Check (IOCore enc out a ctx) ent ce w =
     (if levels w a \<le> ent_Level ent
      then (ce @ [\<lparr>sink_enc = enc, sink_out = out, sink_level = a, sink_fields = ctx\<rparr>], w)
      else (ce, w))"
| "Core_Check (MultiCore cs) ent ce w = multiCore_Check cs ent ce w"
| "Core_Check (Sampler c tick cnt first thereafter) ent ce w =
     (if \<not> Core_Enabled w c (ent_Level ent) then (ce, w)
      else if minLevel \<le> ent_Level ent \<and> ent_Level ent \<le> maxLevel then
        (case IncCheckReset (counters_get cnt (ent_Level ent) (ent_Message ent))
                (ent_Time ent) tick w of
           (n, w') \<Rightarrow>
             if n > first \<and> (thereafter = 0 \<or> (n - first) mod thereafter \<noteq> 0)
             then (ce, w')
             else Core_Check c ent ce w')
      else Core_Check c ent ce w)"
| "multiCore_Check [] ent ce w = (ce, w)"
| "multiCore_Check (c # cs) ent ce w =
     (case Core_Check c ent ce w of (ce', w') \<Rightarrow> multiCore_Check cs ent ce' w')"

text \<open>The logger: \<^verbatim>\<open>zap.New(core, opts...)\<close> and the three options the repository uses.\<close>

datatype zap_Option = Fields "Field list" | AddCaller | AddStacktrace Level

fun apply_Option :: "zap_Option \<Rightarrow> zap_Logger \<Rightarrow> zap_Logger" where
  "apply_Option (Fields fs) lg = lg\<lparr>core := Core_With (core lg) fs\<rparr>"
| "apply_Option AddCaller lg = lg\<lparr>addCaller := True\<rparr>"
| "apply_Option (AddStacktrace lvl) lg = lg\<lparr>addStack := lvl\<rparr>"

definition zap_New :: "Core \<Rightarrow> zap_Option list \<Rightarrow> zap_Logger" where
  "zap_New c opts = fold apply_Option opts \<lparr>core = c, addCaller = False, addStack = FatalLevel + 1\<rparr>"

definition NewNop :: zap_Logger where
  "NewNop = \<lparr>core = NopCore, addCaller = False, addStack = FatalLevel + 1\<rparr>"

text \<open>\<^verbatim>\<open>Logger.With(fields...)\<close>: with no field the logger itself is returned.\<close>

definition Logger_With :: "zap_Logger \<Rightarrow> Field list \<Rightarrow> zap_Logger" where
  "Logger_With lg fs = (if fs = [] then lg else lg\<lparr>core := Core_With (core lg) fs\<rparr>)"

text \<open>
  \<^verbatim>\<open>Logger.check(lvl, msg)\<close> followed by \<^verbatim>\<open>CheckedEntry.Write(fields...)\<close>, as
  \<^verbatim>\<open>Logger.Log\<close>, \<^verbatim>\<open>Info\<close>, \<^verbatim>\<open>Error\<close>, ... do: below \<^verbatim>\<open>DPanicLevel\<close> a disabled level
  returns before the core is asked; otherwise the core is checked, and every sink of
  the checked entry is handed the entry with its bound fields and the call's fields.
  One sink's failed write does not stop the loop over the others, so a delivery is
  recorded per sink. (What follows the write at the panic and fatal levels is not
  modelled.)
\<close>

record delivery =
  to_sink :: sink
  entry :: Entry
  call_fields :: "Field list"

definition Logger_check :: "zap_Logger \<Rightarrow> Entry \<Rightarrow> world \<Rightarrow> sink list \<times> world" where
  "Logger_check lg ent w =
     (if ent_Level ent < DPanicLevel \<and> \<not> Core_Enabled w (core lg) (ent_Level ent)
      then ([], w)
      else Core_Check (core lg) ent [] w)"

definition Logger_Log :: "zap_Logger \<Rightarrow> Entry \<Rightarrow> Field list \<Rightarrow> world \<Rightarrow> delivery list \<times> world" where
  "Logger_Log lg ent fs w =
     (case Logger_check lg ent w of
        (ce, w') \<Rightarrow> (map (\<lambda>s. \<lparr>to_sink = s, entry = ent, call_fields = fs\<rparr>) ce, w'))"

section \<open>The root package: pipeline construction\<close>

text \<open>
  \<^verbatim>\<open>os.OpenFile(path, O_APPEND|O_CREATE|O_WRONLY, 0644)\<close> succeeds or fails with the
  file system; the file system is the parameter \<open>fs\<close>: \<open>fs path\<close> holds when the file
  can be opened.
\<close>

definition buildConsoleCore :: "nat \<Rightarrow> Core" where
  "buildConsoleCore lvl = IOCore (NewConsoleEncoder consoleEncoderConfig) Stdout lvl []"

text \<open>\<^verbatim>\<open>buildJSONExportCore\<close>: \<open>None\<close> is the nil core returned when the file cannot be opened.\<close>

definition buildJSONExportCore :: "(string \<Rightarrow> bool) \<Rightarrow> string \<Rightarrow> nat \<Rightarrow> Core option" where
  "buildJSONExportCore fs path lvl =
     (if path = ''stdout'' then Some (IOCore (NewJSONEncoder jsonEncoderConfig) Stdout lvl [])
      else if path = ''stderr'' then Some (IOCore (NewJSONEncoder jsonEncoderConfig) Stderr lvl [])
      else if \<not> fs path then None
      else Some (IOCore (NewJSONEncoder jsonEncoderConfig) (File path) lvl []))"

definition buildOptions :: "Config \<Rightarrow> string \<Rightarrow> zap_Option list" where
  "buildOptions cfg serviceName =
     [Fields [zap_String ''service'' serviceName]]
     @ (if \<not> DisableCaller cfg then [AddCaller] else [])
     @ (if \<not> DisableStacktrace cfg
        then [AddStacktrace (if StacktraceLevel cfg = [] then ErrorLevel
                             else parseLevel (StacktraceLevel cfg))]
        else [])"

text \<open>
  \<^verbatim>\<open>NewWithLevel(ctx, serviceName, cfg, w)\<close>. The writer \<open>wr\<close> is \<open>None\<close> for a nil
  \<^verbatim>\<open>io.Writer\<close>. The goroutine that waits for \<^verbatim>\<open>ctx.Done()\<close> and then calls
  \<^verbatim>\<open>logger.Sync()\<close> touches neither the cores nor the level, and is left out together
  with \<^verbatim>\<open>ctx\<close>.
\<close>

definition NewWithLevel ::
  "(string \<Rightarrow> bool) \<Rightarrow> string \<Rightarrow> Config \<Rightarrow> nat option \<Rightarrow> world \<Rightarrow> (zap_Logger \<times> nat) \<times> world" where
  "NewWithLevel fs serviceName cfg wr w =
     (let level = parseLevel (Level cfg) in
      case NewAtomicLevelAt level w of (atomicLevel, w1) \<Rightarrow>
      let cores0 = [buildConsoleCore atomicLevel];
          cores1 =
            (if ExportPath cfg \<noteq> [] \<and> (Environment cfg = EnvDev \<or> Environment cfg = EnvProd)
             then (case buildJSONExportCore fs (ExportPath cfg) atomicLevel of
                     Some exportCore \<Rightarrow> cores0 @ [exportCore]
                   | None \<Rightarrow> cores0)
             else cores0);
          cores2 =
            (case wr of
               Some x \<Rightarrow>
                 cores1 @ [IOCore (NewConsoleEncoder consoleEncoderConfig) (Writer x) atomicLevel []]
             | None \<Rightarrow> cores1);
          combinedCore = NewTee cores2
      in case (case Sampling cfg of
                 Some s \<Rightarrow>
                   if Initial s > 0
                   then NewSamplerWithOptions combinedCore Second (Initial s) (Thereafter s) w1
                   else (combinedCore, w1)
               | None \<Rightarrow> (combinedCore, w1)) of
           (sampledCore, w2) \<Rightarrow>
             ((zap_New sampledCore (buildOptions cfg serviceName), atomicLevel), w2))"

text \<open>\<^verbatim>\<open>New\<close>: \<^verbatim>\<open>NewWithLevel\<close>, then the logger and its level become the package's globals.\<close>

definition New :: "(string \<Rightarrow> bool) \<Rightarrow> string \<Rightarrow> Config \<Rightarrow> nat option \<Rightarrow> world \<Rightarrow> zap_Logger \<times> world" where
  "New fs serviceName cfg wr w =
     (case NewWithLevel fs serviceName cfg wr w of
        ((logger, level), w1) \<Rightarrow>
          (logger, w1\<lparr>globalLogger := Some logger, globalLevel := Some level\<rparr>))"

text \<open>\<^verbatim>\<open>GlobalLevel\<close>; the zero \<^verbatim>\<open>AtomicLevel\<close> (nil pointer inside) is \<open>None\<close>.\<close>

definition GlobalLevel :: "world \<Rightarrow> nat option" where
  "GlobalLevel w = globalLevel w"




section \<open>The context carrier and the global registry\<close>

text \<open>
  A \<^verbatim>\<open>context.Context\<close> is a chain of key-value pairs over a background context
  (a context with a deadline or a cancel function answers \<^verbatim>\<open>Value\<close> as its parent does).
  The key is the package's private \<^verbatim>\<open>ctxKey{}\<close> or any other key; a value is of any
  type: a \<^verbatim>\<open>*zap.Logger\<close> (a pointer, so possibly the nil pointer, \<open>None\<close>) or a value
  of another type. \<^verbatim>\<open>FromContext\<close>, \<^verbatim>\<open>WithContext\<close> and \<^verbatim>\<open>Global\<close> are the same,
  line for line, in the root package and in \<^verbatim>\<open>pkg/logger\<close>.
\<close>

datatype ctx_key = CtxKey | OtherKey nat

datatype ctx_value = LoggerPtr "zap_Logger option" | OtherValue nat

datatype Ctx = Background | WithValue Ctx ctx_key ctx_value

text \<open>\<^verbatim>\<open>ctx.Value(key)\<close>: the innermost pair with the key; \<open>None\<close> is the nil interface.\<close>

fun Ctx_Value :: "Ctx \<Rightarrow> ctx_key \<Rightarrow> ctx_value option" where
  "Ctx_Value Background k = None"
| "Ctx_Value (WithValue parent k' v) k = (if k = k' then Some v else Ctx_Value parent k)"

definition Global :: "world \<Rightarrow> zap_Logger option" where
  "Global w = (case globalLogger w of None \<Rightarrow> Some NewNop | Some l \<Rightarrow> Some l)"

text \<open>
  \<^verbatim>\<open>FromContext\<close>: the type assertion \<^verbatim>\<open>ctx.Value(ctxKey{}).(*zap.Logger)\<close> succeeds
  for every value whose dynamic type is \<^verbatim>\<open>*zap.Logger\<close>, the nil pointer included.
  The result is a pointer: \<open>None\<close> is nil.
\<close>

definition FromContext :: "world \<Rightarrow> Ctx \<Rightarrow> zap_Logger option" where
  "FromContext w c =
     (case Ctx_Value c CtxKey of
        Some (LoggerPtr l) \<Rightarrow> l
      | _ \<Rightarrow> Global w)"

definition WithContext :: "Ctx \<Rightarrow> zap_Logger option \<Rightarrow> Ctx" where
  "WithContext c l = WithValue c CtxKey (LoggerPtr l)"

section \<open>The package \<^verbatim>\<open>pkg/logger\<close>\<close>

text \<open>The wrapper \<^verbatim>\<open>Logger{*zap.Logger, level}\<close>.\<close>

record pkg_Logger =
  Logger :: zap_Logger
  level :: nat

definition pkg_buildCore :: "(string \<Rightarrow> bool) \<Rightarrow> string \<Rightarrow> nat \<Rightarrow> EncoderConfig \<Rightarrow> string \<Rightarrow> Core option" where
  "pkg_buildCore fs path lvl cfg env =
     (if path = ''stdout'' then Some (IOCore (pkg_newEncoder env cfg) Stdout lvl [])
      else if path = ''stderr'' then Some (IOCore (pkg_newEncoder env cfg) Stderr lvl [])
      else if \<not> fs path then None
      else Some (IOCore (pkg_newEncoder env cfg) (File path) lvl []))"

definition pkg_buildOptions :: "pkg_Config \<Rightarrow> string \<Rightarrow> zap_Option list" where
  "pkg_buildOptions cfg serviceName =
     [Fields [zap_String ''service'' serviceName]]
     @ (if \<not> pkg_DisableCaller cfg then [AddCaller] else [])
     @ (if \<not> pkg_DisableStacktrace cfg
        then [AddStacktrace (if pkg_StacktraceLevel cfg = [] then ErrorLevel
                             else parseLevel (pkg_StacktraceLevel cfg))]
        else [])"

text \<open>The loop of \<^verbatim>\<open>New\<close> over \<^verbatim>\<open>cfg.OutputPaths\<close>: a nil core is skipped.\<close>

fun pkg_output_cores ::
  "(string \<Rightarrow> bool) \<Rightarrow> string list \<Rightarrow> nat \<Rightarrow> EncoderConfig \<Rightarrow> string \<Rightarrow> Core list \<Rightarrow> Core list" where
  "pkg_output_cores fs [] lvl ec env cores = cores"
| "pkg_output_cores fs (path # paths) lvl ec env cores =
     (case pkg_buildCore fs path lvl ec env of
        Some c \<Rightarrow> pkg_output_cores fs paths lvl ec env (cores @ [c])
      | None \<Rightarrow> pkg_output_cores fs paths lvl ec env cores)"

definition pkg_New ::
  "(string \<Rightarrow> bool) \<Rightarrow> string \<Rightarrow> pkg_Config \<Rightarrow> nat option \<Rightarrow> world \<Rightarrow> pkg_Logger \<times> world" where
  "pkg_New fs serviceName cfg wr w =
     (let lvl = parseLevel (pkg_Level cfg) in
      case NewAtomicLevelAt lvl w of (atomicLevel, w1) \<Rightarrow>
      let encoderConfig = pkg_newEncoderConfig (pkg_Environment cfg);
          cores0 = pkg_output_cores fs (pkg_OutputPaths cfg) atomicLevel encoderConfig
                     (pkg_Environment cfg) [];
          cores1 =
            (case wr of
               Some x \<Rightarrow>
                 cores0 @ [IOCore (pkg_newEncoder (pkg_Environment cfg) encoderConfig)
                             (Writer x) atomicLevel []]
             | None \<Rightarrow> cores0);
          cores2 =
            (if length cores1 = 0
             then cores1 @ [IOCore (pkg_newEncoder (pkg_Environment cfg) encoderConfig)
                              Stdout atomicLevel []]
             else cores1);
          combinedCore = NewTee cores2
      in case (case pkg_Sampling cfg of
                 Some s \<Rightarrow>
                   if Initial s > 0
                   then NewSamplerWithOptions combinedCore Second (Initial s) (Thereafter s) w1
                   else (combinedCore, w1)
               | None \<Rightarrow> (combinedCore, w1)) of
           (sampledCore, w2) \<Rightarrow>
             (let logger = zap_New sampledCore (pkg_buildOptions cfg serviceName)
              in (\<lparr>Logger = logger, level = atomicLevel\<rparr>, w2\<lparr>globalLogger := Some logger\<rparr>)))"

definition SetLevel :: "pkg_Logger \<Rightarrow> string \<Rightarrow> world \<Rightarrow> world" where
  "SetLevel l lv w = AtomicLevel_SetLevel (level l) (parseLevel lv) w"

definition GetLevel :: "pkg_Logger \<Rightarrow> world \<Rightarrow> Level" where
  "GetLevel l w = AtomicLevel_Level (level l) w"

definition pkg_WithTraceID :: "pkg_Logger \<Rightarrow> string \<Rightarrow> string \<Rightarrow> zap_Logger" where
  "pkg_WithTraceID l traceID spanID =
     Logger_With (Logger l) [zap_String ''trace_id'' traceID, zap_String ''span_id'' spanID]"


definition pkg_WithError :: "pkg_Logger \<Rightarrow> string option \<Rightarrow> zap_Logger" where
  "pkg_WithError l err = Logger_With (Logger l) [zap_Error err]"

section \<open>Observations on pipelines\<close>

text \<open>The sinks of a core, in the order in which a tee asks them.\<close>

fun Core_sinks :: "Core \<Rightarrow> sink list" where
  "Core_sinks NopCore = []"
| "Core_sinks (IOCore enc out a ctx) =
     [\<lparr>sink_enc = enc, sink_out = out, sink_level = a, sink_fields = ctx\<rparr>]"
| "Core_sinks (MultiCore cs) = concat (map Core_sinks cs)"
| "Core_sinks (Sampler c tick cnt first thereafter) = Core_sinks c"

text \<open>
  The decision the sampler at the head of a core takes on an entry in a store: the
  negation of its drop condition, on the count \<^verbatim>\<open>IncCheckReset\<close> returns. A core
  with no sampler at its head keeps every entry.
\<close>

fun sampler_keeps :: "Core \<Rightarrow> Entry \<Rightarrow> world \<Rightarrow> bool" where
  "sampler_keeps (Sampler c tick cnt first thereafter) ent w =
     (if minLevel \<le> ent_Level ent \<and> ent_Level ent \<le> maxLevel then
        (case IncCheckReset (counters_get cnt (ent_Level ent) (ent_Message ent))
                (ent_Time ent) tick w of
           (n, w') \<Rightarrow> \<not> (n > first \<and> (thereafter = 0 \<or> (n - first) mod thereafter \<noteq> 0)))
      else True)"
| "sampler_keeps c ent w = True"

text \<open>Sampling is applied by \<^verbatim>\<open>New\<close> when the pointer is not nil and \<^verbatim>\<open>Initial > 0\<close>.\<close>

definition sampling_on :: "SamplingConfig option \<Rightarrow> bool" where
  "sampling_on sc = (case sc of Some s \<Rightarrow> Initial s > 0 | None \<Rightarrow> False)"

text \<open>
  The shape of the cores the constructors build: \<open>plain a c\<close> when \<open>c\<close> has no sampler
  and each of its sinks consults the level cell \<open>a\<close>; \<open>pipeline a c\<close> when \<open>c\<close> is
  plain, or a sampler around a plain core.
\<close>

fun plain :: "nat \<Rightarrow> Core \<Rightarrow> bool" where
  "plain a NopCore = True"
| "plain a (IOCore enc out a' ctx) = (a' = a)"
| "plain a (MultiCore cs) = list_all (plain a) cs"
| "plain a (Sampler c tick cnt first thereafter) = False"

fun pipeline :: "nat \<Rightarrow> Core \<Rightarrow> bool" where
  "pipeline a (Sampler c tick cnt first thereafter) = plain a c"
| "pipeline a c = plain a c"

text \<open>
  The switch of \<^verbatim>\<open>buildJSONExportCore\<close> and of \<^verbatim>\<open>buildCore\<close> over the path: the
  destination a path resolves to, \<open>None\<close> when the file cannot be opened.
\<close>

definition resolve :: "(string \<Rightarrow> bool) \<Rightarrow> string \<Rightarrow> WriteSyncer option" where
  "resolve fs path =
     (if path = ''stdout'' then Some Stdout
      else if path = ''stderr'' then Some Stderr
      else if \<not> fs path then None
      else Some (File path))"

text \<open>The condition under which \<^verbatim>\<open>NewWithLevel\<close> asks for the JSON export core.\<close>

definition export_on :: "Config \<Rightarrow> bool" where
  "export_on cfg = (ExportPath cfg \<noteq> [] \<and> (Environment cfg = EnvDev \<or> Environment cfg = EnvProd))"

text \<open>The list of cores \<^verbatim>\<open>NewWithLevel\<close> hands to the tee, and the one of \<^verbatim>\<open>pkg/logger\<close>'s \<^verbatim>\<open>New\<close>.\<close>

definition root_cores :: "(string \<Rightarrow> bool) \<Rightarrow> Config \<Rightarrow> nat option \<Rightarrow> nat \<Rightarrow> Core list" where
  "root_cores fs cfg wr a =
     [buildConsoleCore a]
     @ (if export_on cfg
        then (case buildJSONExportCore fs (ExportPath cfg) a of Some c \<Rightarrow> [c] | None \<Rightarrow> [])
        else [])
     @ (case wr of Some x \<Rightarrow> [IOCore (NewConsoleEncoder consoleEncoderConfig) (Writer x) a []]
        | None \<Rightarrow> [])"

definition pkg_cores :: "(string \<Rightarrow> bool) \<Rightarrow> pkg_Config \<Rightarrow> nat option \<Rightarrow> nat \<Rightarrow> Core list" where
  "pkg_cores fs cfg wr a =
     (let enc = pkg_newEncoder (pkg_Environment cfg) (pkg_newEncoderConfig (pkg_Environment cfg));
          cs = List.map_filter (\<lambda>p. pkg_buildCore fs p a (pkg_newEncoderConfig (pkg_Environment cfg))
                  (pkg_Environment cfg)) (pkg_OutputPaths cfg)
               @ (case wr of Some x \<Rightarrow> [IOCore enc (Writer x) a []] | None \<Rightarrow> [])
      in if cs = [] then [IOCore enc Stdout a []] else cs)"

text \<open>
  The destinations of the sinks \<^verbatim>\<open>pkg/logger\<close>'s \<^verbatim>\<open>New\<close> builds: the output paths
  that resolve, then the injected writer; standard output when there is none.
\<close>

definition pkg_outs :: "(string \<Rightarrow> bool) \<Rightarrow> pkg_Config \<Rightarrow> nat option \<Rightarrow> WriteSyncer list" where
  "pkg_outs fs cfg wr =
     (let outs = List.map_filter (resolve fs) (pkg_OutputPaths cfg)
                 @ (case wr of Some x \<Rightarrow> [Writer x] | None \<Rightarrow> [])
      in if outs = [] then [Stdout] else outs)"


section \<open>Sampling over a stream of events\<close>

text \<open>
  A stream of entries logged one after another through a logger, with no field; for
  each entry, whether it was delivered to a sink.
\<close>

fun Log_all :: "zap_Logger \<Rightarrow> Entry list \<Rightarrow> world \<Rightarrow> bool list \<times> world" where
  "Log_all lg [] w = ([], w)"
| "Log_all lg (e # es) w =
     (case Logger_Log lg e [] w of
        (ds, w') \<Rightarrow> (case Log_all lg es w' of (bs, w'') \<Rightarrow> ((ds \<noteq> []) # bs, w'')))"

text \<open>
  The sampling rule in the specification's words: for the count \<open>n\<close> (from 1) of a key
  in its window, emit if \<open>n <= initial\<close>, otherwise only if \<open>thereafter\<close> is not zero and
  \<open>(n - initial) % thereafter == 0\<close>.
\<close>

definition spec_emit :: "nat \<Rightarrow> nat \<Rightarrow> nat \<Rightarrow> bool" where
  "spec_emit i t n = (n \<le> i \<or> (t > 0 \<and> (n - i) mod t = 0))"

text \<open>
  The sampler of the specification: one counter per (level, message) pair. The state
  gives each pair the end of its current window and its count there. An occurrence
  inside the window counts one more; an occurrence with no window open, or at or after
  the window's end, opens a window of one second and counts 1.
\<close>

fun spec_sampler ::
  "nat \<Rightarrow> nat \<Rightarrow> (Level \<times> string \<Rightarrow> (int \<times> nat) option) \<Rightarrow> Entry list \<Rightarrow> bool list" where
  "spec_sampler i t st [] = []"
| "spec_sampler i t st (e # es) =
     (let k = (ent_Level e, ent_Message e);
          in_window = (case st k of Some (wend, n) \<Rightarrow> ent_Time e < wend | None \<Rightarrow> False);
          n = (if in_window then snd (the (st k)) + 1 else 1);
          wend = (if in_window then fst (the (st k)) else ent_Time e + Second)
      in spec_emit i t n # spec_sampler i t (st(k \<mapsto> (wend, n))) es)"

text \<open>The key of an entry for the specification's sampler: its level and its message.\<close>

definition key_of :: "Entry \<Rightarrow> Level \<times> string" where
  "key_of e = (ent_Level e, ent_Message e)"

text \<open>
  Of the flags of a stream (one per entry: delivered or not), those of the entries
  with the key \<open>k\<close>, in order.
\<close>

fun flags_of :: "Level \<times> string \<Rightarrow> Entry list \<Rightarrow> bool list \<Rightarrow> bool list" where
  "flags_of k (e # es) (b # bs) =
     (if key_of e = k then b # flags_of k es bs else flags_of k es bs)"
| "flags_of k es bs = []"

text \<open>
  The key \<open>k\<close> shares its counter of the sampler's table with no other key of the
  stream: every entry of a level the table has counters for (debug to fatal) that
  lands on the counter of \<open>k\<close> has the key \<open>k\<close>.
\<close>

definition alone :: "Level \<times> string \<Rightarrow> Entry list \<Rightarrow> bool" where
  "alone k es =
     list_all (\<lambda>e. minLevel \<le> ent_Level e \<and> ent_Level e \<le> maxLevel
                   \<and> counters_get 0 (ent_Level e) (ent_Message e) = counters_get 0 (fst k) (snd k)
                   \<longrightarrow> key_of e = k) es"

text \<open>
  The entries of the key \<open>k\<close> are stamped at or after the epoch, and early enough for
  the end of a window opened at their time to be an \<^verbatim>\<open>int64\<close> (before the year 2262).
\<close>

definition stamped :: "Level \<times> string \<Rightarrow> Entry list \<Rightarrow> bool" where
  "stamped k es =
     list_all (\<lambda>e. key_of e = k \<longrightarrow> 0 \<le> ent_Time e \<and> ent_Time e + Second < 2 ^ 63) es"

section \<open>The default configurations\<close>

text \<open>\<^verbatim>\<open>DefaultLoggerConfig()\<close> of the root package and of \<^verbatim>\<open>pkg/logger\<close>.\<close>

definition DefaultLoggerConfig :: Config where
  "DefaultLoggerConfig =
     \<lparr>Level = ''info'', Environment = EnvLocal, ExportPath = [],
      Sampling = Some \<lparr>Initial = 100, Thereafter = 100\<rparr>,
      DisableCaller = False, DisableStacktrace = False, StacktraceLevel = ''error''\<rparr>"

definition pkg_DefaultLoggerConfig :: pkg_Config where
  "pkg_DefaultLoggerConfig =
     \<lparr>pkg_Level = ''info'', pkg_Environment = ''production'', pkg_OutputPaths = [''stdout''],
      pkg_ErrorOutputPaths = [''stderr''],
      pkg_Sampling = Some \<lparr>Initial = 100, Thereafter = 100\<rparr>,
      pkg_DisableCaller = False, pkg_DisableStacktrace = False, pkg_StacktraceLevel = ''error''\<rparr>"

section \<open>Concrete inputs\<close>

text \<open>
  A file system in which only \<^verbatim>\<open>/var/log/ok.log\<close> can be opened, a configuration of
  \<^verbatim>\<open>pkg/logger\<close> with one path that cannot be opened and one that can, and an entry.
\<close>

definition only_ok_log :: "string \<Rightarrow> bool" where
  "only_ok_log p = (p = ''/var/log/ok.log'')"

definition two_paths_config :: pkg_Config where
  "two_paths_config = pkg_DefaultLoggerConfig
     \<lparr>pkg_OutputPaths := [''/no/such/dir/app.log'', ''/var/log/ok.log''], pkg_Sampling := None\<rparr>"

definition disk_full :: Entry where
  "disk_full = \<lparr>ent_Time = 0, ent_Level = WarnLevel, ent_Message = ''disk almost full''\<rparr>"

text \<open>
  The default configuration with the sampling policy \<open>{initial: 1, thereafter: 0}\<close>, and
  an entry at the info level with the message \<open>hello\<close>, at a given time.
\<close>

definition once_config :: Config where
  "once_config = DefaultLoggerConfig\<lparr>Sampling := Some \<lparr>Initial = 1, Thereafter = 0\<rparr>\<rparr>"

definition hello :: "int \<Rightarrow> Entry" where
  "hello t = \<lparr>ent_Time = t, ent_Level = InfoLevel, ent_Message = ''hello''\<rparr>"





text \<open>
  The sampling policy \<open>{initial: 2, thereafter: 3}\<close> in both packages' default
  configurations, and an entry at the info level with a given message and time.
\<close>

definition two_three_config :: Config where
  "two_three_config = DefaultLoggerConfig\<lparr>Sampling := Some \<lparr>Initial = 2, Thereafter = 3\<rparr>\<rparr>"

definition pkg_two_three_config :: pkg_Config where
  "pkg_two_three_config = pkg_DefaultLoggerConfig\<lparr>pkg_Sampling := Some \<lparr>Initial = 2, Thereafter = 3\<rparr>\<rparr>"

definition info :: "string \<Rightarrow> int \<Rightarrow> Entry" where
  "info m t = \<lparr>ent_Time = t, ent_Level = InfoLevel, ent_Message = m\<rparr>"

text \<open>
  A stream: ten entries \<open>hello\<close> within one second and an eleventh one second after the
  first, with entries of other keys among them: \<open>d2\<close> and \<open>np\<close>, whose FNV-1a hashes
  agree modulo 4096, and a debug entry, which the info level does not enable.
\<close>

definition mixed_stream :: "Entry list" where
  "mixed_stream =
     [hello 0, info ''d2'' 0, hello 1, info ''np'' 1, hello 2, hello 3,
      \<lparr>ent_Time = 3, ent_Level = DebugLevel, ent_Message = ''hello''\<rparr>,
      hello 4, hello 5, info ''d2'' 5, hello 6, hello 7, hello 8, hello 9, hello Second]"

text \<open>
  Three streams for the policy \<open>{initial: 1, thereafter: 0}\<close>: two entries with
  different messages on one counter; three identical entries at the last nanosecond
  an \<^verbatim>\<open>int64\<close> holds; two identical entries two seconds apart, five and three seconds
  before the epoch.
\<close>

definition colliding_pair :: "Entry list" where
  "colliding_pair = [info ''d2'' 0, info ''np'' 1]"

definition late_triple :: "Entry list" where
  "late_triple = [hello (2 ^ 63 - 1), hello (2 ^ 63 - 1), hello (2 ^ 63 - 1)]"

definition early_pair :: "Entry list" where
  "early_pair = [hello (- 5000000000), hello (- 3000000000)]"

section \<open>Cores: fields, levels, checks\<close>

lemmas level_defs =
  DebugLevel_def InfoLevel_def WarnLevel_def ErrorLevel_def DPanicLevel_def
  PanicLevel_def FatalLevel_def minLevel_def maxLevel_def

lemma plain_With: "plain a c \<Longrightarrow> plain a (Core_With c fs)"
  by (induction c) (auto simp: list_all_iff)

lemma plain_pipeline: "plain a c \<Longrightarrow> pipeline a c"
  by (cases c) auto


lemma sinks_With:
  "Core_sinks (Core_With c fs) = map (\<lambda>s. s\<lparr>sink_fields := sink_fields s @ fs\<rparr>) (Core_sinks c)"
  by (induction c) (auto simp: map_concat comp_def intro!: arg_cong[where f = concat])



lemma plain_Enabled:
  "plain a c \<Longrightarrow> Core_Enabled w c lv = (Core_sinks c \<noteq> [] \<and> levels w a \<le> lv)"
  by (induction c) (auto simp: list_all_iff list_ex_iff)

lemma plain_Check:
  "plain a c \<Longrightarrow>
     Core_Check c ent ce w = (if levels w a \<le> ent_Level ent then ce @ Core_sinks c else ce, w)"
  "list_all (plain a) cs \<Longrightarrow>
     multiCore_Check cs ent ce w =
       (if levels w a \<le> ent_Level ent then ce @ concat (map Core_sinks cs) else ce, w)"
  by (induction c ent ce w and cs ent ce w rule: Core_Check_multiCore_Check.induct) auto

lemma IncCheckReset_levels: "levels (snd (IncCheckReset k tn tick w)) = levels w"
  by (simp add: IncCheckReset_def split: prod.splits)

lemma IncCheckReset_levels': "IncCheckReset k tn tick w = (n, w') \<Longrightarrow> levels w' = levels w"
  using IncCheckReset_levels[of k tn tick w] by simp

text \<open>
  Logging through a pipeline: the entry reaches every sink when the level cell enables
  it and the sampler keeps it, and no sink otherwise.
\<close>

lemma Log_pipeline:
  assumes "pipeline a (core lg)"
  shows "fst (Logger_Log lg ent fl w) =
           (if levels w a \<le> ent_Level ent \<and> sampler_keeps (core lg) ent w
            then map (\<lambda>s. \<lparr>to_sink = s, entry = ent, call_fields = fl\<rparr>) (Core_sinks (core lg))
            else [])"
proof (cases "core lg")
  case (Sampler c tick cnt first thereafter)
  with assms have p: "plain a c" by simp
  show ?thesis
    using IncCheckReset_levels[of "counters_get cnt (ent_Level ent) (ent_Message ent)" "ent_Time ent" tick w]
    by (auto simp: Logger_Log_def Logger_check_def Sampler plain_Enabled[OF p] plain_Check(1)[OF p]
          split: prod.splits)
next
  case NopCore
  then show ?thesis by (simp add: Logger_Log_def Logger_check_def)
next
  case (IOCore enc out a' ctx)
  with assms show ?thesis by (auto simp: Logger_Log_def Logger_check_def)
next
  case (MultiCore cs)
  with assms have p: "plain a (core lg)" by simp
  show ?thesis
    using plain_Check(1)[OF p, of ent "[]" w] plain_Enabled[OF p, of w "ent_Level ent"]
    by (auto simp: Logger_Log_def Logger_check_def MultiCore split: prod.splits)
qed

lemma Log_pipeline_sinks:
  assumes "pipeline a (core lg)"
  shows "map to_sink (fst (Logger_Log lg ent fl w)) =
           (if levels w a \<le> ent_Level ent \<and> sampler_keeps (core lg) ent w
            then Core_sinks (core lg) else [])"
  by (simp add: Log_pipeline[OF assms] comp_def)

section \<open>The shape of the constructed pipelines\<close>

lemma zap_New_core:
  "core (zap_New c (buildOptions cfg sn)) = Core_With c [zap_String ''service'' sn]"
  "core (zap_New c (pkg_buildOptions pcfg sn)) = Core_With c [zap_String ''service'' sn]"
  by (simp_all add: zap_New_def buildOptions_def pkg_buildOptions_def)

lemma NewTee_plain: "list_all (plain a) cs \<Longrightarrow> plain a (NewTee cs)"
  by (cases cs rule: NewTee.cases) auto

lemma NewTee_sinks: "Core_sinks (NewTee cs) = concat (map Core_sinks cs)"
  by (cases cs rule: NewTee.cases) auto

lemma buildJSONExportCore_resolve:
  "buildJSONExportCore fs p a =
     map_option (\<lambda>out. IOCore (NewJSONEncoder jsonEncoderConfig) out a []) (resolve fs p)"
  by (simp add: buildJSONExportCore_def resolve_def)

lemma pkg_buildCore_resolve:
  "pkg_buildCore fs p a ec env =
     map_option (\<lambda>out. IOCore (pkg_newEncoder env ec) out a []) (resolve fs p)"
  by (simp add: pkg_buildCore_def resolve_def)

lemma map_filter_map_option:
  "List.map_filter (\<lambda>p. map_option g (f p)) xs = map g (List.map_filter f xs)"
  by (induction xs) (auto split: option.splits)

lemma root_cores_plain: "list_all (plain a) (root_cores fs cfg wr a)"
  by (cases wr; cases "resolve fs (ExportPath cfg)")
     (simp_all add: root_cores_def buildConsoleCore_def buildJSONExportCore_resolve)

lemma root_cores_sinks:
  "concat (map Core_sinks (root_cores fs cfg wr a)) =
     [\<lparr>sink_enc = NewConsoleEncoder consoleEncoderConfig, sink_out = Stdout,
       sink_level = a, sink_fields = []\<rparr>]
     @ (if export_on cfg
        then (case resolve fs (ExportPath cfg) of
                Some out \<Rightarrow>
                  [\<lparr>sink_enc = NewJSONEncoder jsonEncoderConfig, sink_out = out,
                    sink_level = a, sink_fields = []\<rparr>]
              | None \<Rightarrow> [])
        else [])
     @ (case wr of
          Some x \<Rightarrow>
            [\<lparr>sink_enc = NewConsoleEncoder consoleEncoderConfig, sink_out = Writer x,
              sink_level = a, sink_fields = []\<rparr>]
        | None \<Rightarrow> [])"
  by (cases wr; cases "resolve fs (ExportPath cfg)")
     (simp_all add: root_cores_def buildConsoleCore_def buildJSONExportCore_resolve)

lemma NewWithLevel_core:
  "core (fst (fst (NewWithLevel fs sn cfg wr w))) =
     (if sampling_on (Sampling cfg)
      then Sampler (Core_With (NewTee (root_cores fs cfg wr (next_addr w))) [zap_String ''service'' sn])
             Second (Suc (next_addr w)) (word_of_int (Initial (the (Sampling cfg))))
             (word_of_int (Thereafter (the (Sampling cfg))))
      else Core_With (NewTee (root_cores fs cfg wr (next_addr w))) [zap_String ''service'' sn])"
  by (auto simp: NewWithLevel_def NewAtomicLevelAt_def Let_def zap_New_core root_cores_def
        export_on_def NewSamplerWithOptions_def sampling_on_def split: option.splits)

lemma NewWithLevel_level:
  "snd (fst (NewWithLevel fs sn cfg wr w)) = next_addr w"
  "levels (snd (NewWithLevel fs sn cfg wr w)) (next_addr w) = parseLevel (Level cfg)"
  by (auto simp: NewWithLevel_def NewAtomicLevelAt_def Let_def
        NewSamplerWithOptions_def split: option.splits)

lemma NewWithLevel_pipeline:
  "pipeline (next_addr w) (core (fst (fst (NewWithLevel fs sn cfg wr w))))"
  by (simp add: NewWithLevel_core plain_With NewTee_plain root_cores_plain plain_pipeline)

lemma NewWithLevel_sinks:
  "Core_sinks (core (fst (fst (NewWithLevel fs sn cfg wr w)))) =
     map (\<lambda>s. s\<lparr>sink_fields := sink_fields s @ [zap_String ''service'' sn]\<rparr>)
       (concat (map Core_sinks (root_cores fs cfg wr (next_addr w))))"
  by (simp add: NewWithLevel_core sinks_With NewTee_sinks)

text \<open>The sinks of the root package's pipeline.\<close>

lemma root_sinks_eq:
  "Core_sinks (core (fst (fst (NewWithLevel fs sn cfg wr w)))) =
     [\<lparr>sink_enc = NewConsoleEncoder consoleEncoderConfig, sink_out = Stdout,
       sink_level = next_addr w, sink_fields = [zap_String ''service'' sn]\<rparr>]
     @ (if export_on cfg
        then (case resolve fs (ExportPath cfg) of
                Some out \<Rightarrow>
                  [\<lparr>sink_enc = NewJSONEncoder jsonEncoderConfig, sink_out = out,
                    sink_level = next_addr w, sink_fields = [zap_String ''service'' sn]\<rparr>]
              | None \<Rightarrow> [])
        else [])
     @ (case wr of
          Some x \<Rightarrow>
            [\<lparr>sink_enc = NewConsoleEncoder consoleEncoderConfig, sink_out = Writer x,
              sink_level = next_addr w, sink_fields = [zap_String ''service'' sn]\<rparr>]
        | None \<Rightarrow> [])"
  unfolding NewWithLevel_sinks root_cores_sinks
  by (cases wr; cases "resolve fs (ExportPath cfg)") simp_all

lemma New_NewWithLevel:
  "fst (New fs sn cfg wr w) = fst (fst (NewWithLevel fs sn cfg wr w))"
  "levels (snd (New fs sn cfg wr w)) = levels (snd (NewWithLevel fs sn cfg wr w))"
  "globalLevel (snd (New fs sn cfg wr w)) = Some (next_addr w)"
  "globalLogger (snd (New fs sn cfg wr w)) = Some (fst (New fs sn cfg wr w))"
  using NewWithLevel_level(1)[of fs sn cfg wr w]
  by (auto simp: New_def split: prod.splits)

lemma pkg_output_cores_eq:
  "pkg_output_cores fs paths a ec env acc =
     acc @ List.map_filter (\<lambda>p. pkg_buildCore fs p a ec env) paths"
  by (induction paths arbitrary: acc) (auto simp: List.map_filter_simps split: option.splits)

lemma pkg_cores_eq:
  "pkg_cores fs cfg wr a =
     map (\<lambda>out. IOCore (pkg_newEncoder (pkg_Environment cfg)
                          (pkg_newEncoderConfig (pkg_Environment cfg))) out a [])
       (pkg_outs fs cfg wr)"
  by (cases wr) (simp_all add: pkg_cores_def pkg_outs_def Let_def pkg_buildCore_resolve
      map_filter_map_option)

lemma pkg_cores_plain: "list_all (plain a) (pkg_cores fs cfg wr a)"
  by (simp add: pkg_cores_eq list_all_iff)

lemma pkg_New_core:
  "core (Logger (fst (pkg_New fs sn cfg wr w))) =
     (if sampling_on (pkg_Sampling cfg)
      then Sampler (Core_With (NewTee (pkg_cores fs cfg wr (next_addr w))) [zap_String ''service'' sn])
             Second (Suc (next_addr w)) (word_of_int (Initial (the (pkg_Sampling cfg))))
             (word_of_int (Thereafter (the (pkg_Sampling cfg))))
      else Core_With (NewTee (pkg_cores fs cfg wr (next_addr w))) [zap_String ''service'' sn])"
  by (auto simp: pkg_New_def NewAtomicLevelAt_def Let_def zap_New_core pkg_cores_def
        pkg_output_cores_eq NewSamplerWithOptions_def sampling_on_def split: option.splits)

lemma pkg_New_level:
  "level (fst (pkg_New fs sn cfg wr w)) = next_addr w"
  "levels (snd (pkg_New fs sn cfg wr w)) (next_addr w) = parseLevel (pkg_Level cfg)"
  by (auto simp: pkg_New_def NewAtomicLevelAt_def Let_def
        NewSamplerWithOptions_def split: option.splits)

lemma pkg_New_pipeline:
  "pipeline (next_addr w) (core (Logger (fst (pkg_New fs sn cfg wr w))))"
  by (simp add: pkg_New_core plain_With NewTee_plain pkg_cores_plain plain_pipeline)

lemma pkg_New_sinks:
  "Core_sinks (core (Logger (fst (pkg_New fs sn cfg wr w)))) =
     map (\<lambda>s. s\<lparr>sink_fields := sink_fields s @ [zap_String ''service'' sn]\<rparr>)
       (concat (map Core_sinks (pkg_cores fs cfg wr (next_addr w))))"
  by (simp add: pkg_New_core sinks_With NewTee_sinks)

text \<open>The sinks of the pipeline of \<^verbatim>\<open>pkg/logger\<close>.\<close>

lemma pkg_New_sinks_eq:
  "Core_sinks (core (Logger (fst (pkg_New fs sn cfg wr w)))) =
     map (\<lambda>out. \<lparr>sink_enc = pkg_newEncoder (pkg_Environment cfg)
                                (pkg_newEncoderConfig (pkg_Environment cfg)),
                  sink_out = out, sink_level = next_addr w,
                  sink_fields = [zap_String ''service'' sn]\<rparr>)
       (pkg_outs fs cfg wr)"
  by (simp add: pkg_New_sinks pkg_cores_eq map_concat comp_def)


section \<open>The sampler against the specification's sampler\<close>

text \<open>The drop condition, computed on 64-bit words, is the specification's rule on counts below \<open>2^64\<close>.\<close>

lemma un64: "n < 2 ^ 64 \<Longrightarrow> unat (of_nat n :: 64 word) = n"
  by (simp add: unat_of_nat)

lemma keep_iff:
  assumes "n < 2 ^ 64" "i < 2 ^ 64" "t < 2 ^ 64"
  shows "(\<not> ((of_nat n :: 64 word) > of_nat i \<and>
            ((of_nat t :: 64 word) = 0 \<or> (of_nat n - of_nat i) mod (of_nat t :: 64 word) \<noteq> 0)))
         = spec_emit i t n"
proof -
  note un = un64[OF assms(1)] un64[OF assms(2)] un64[OF assms(3)]
  have lt: "((of_nat n :: 64 word) > of_nat i) = (i < n)"
    by (simp add: word_less_nat_alt un)
  have z: "((of_nat t :: 64 word) = 0) = (t = 0)"
    using un(3) by (auto simp: unat_eq_zero[symmetric] simp del: unat_eq_zero)
  have sub: "unat ((of_nat n :: 64 word) - of_nat i) = n - i" if "i < n"
  proof -
    have "(of_nat i :: 64 word) \<le> of_nat n"
      using that by (simp add: word_le_nat_alt un)
    then show ?thesis by (simp add: unat_sub un)
  qed
  have md: "(((of_nat n :: 64 word) - of_nat i) mod of_nat t = 0) = ((n - i) mod t = 0)" if "i < n"
  proof -
    have "unat (((of_nat n :: 64 word) - of_nat i) mod of_nat t) = (n - i) mod t"
      by (simp add: unat_mod sub[OF that] un)
    then show ?thesis by (auto simp: unat_eq_zero[symmetric] simp del: unat_eq_zero)
  qed
  show ?thesis
    unfolding spec_emit_def lt z using md by (cases "i < n") auto
qed


lemma counters_get_cnt:
  "(counters_get c l m = counters_get c l' m') = (counters_get 0 l m = counters_get 0 l' m')"
  by (simp add: counters_get_def)

lemma sampler_Log:
  assumes "core lg = Sampler p tick cnt f th" "plain a p" "Core_sinks p \<noteq> []"
    "levels w a \<le> ent_Level e" "minLevel \<le> ent_Level e" "ent_Level e \<le> maxLevel"
    "IncCheckReset (counters_get cnt (ent_Level e) (ent_Message e)) (ent_Time e) tick w = (n, w')"
  shows "snd (Logger_Log lg e fl w) = w'"
    and "(fst (Logger_Log lg e fl w) \<noteq> []) = (\<not> (n > f \<and> (th = 0 \<or> (n - f) mod th \<noteq> 0)))"
  using assms IncCheckReset_levels'[OF assms(7)]
  by (auto simp: Logger_Log_def Logger_check_def plain_Enabled plain_Check split: prod.splits)

lemma wrap_int64_id: "- (2 ^ 63) \<le> x \<Longrightarrow> x < 2 ^ 63 \<Longrightarrow> wrap_int64 x = x"
  by (simp add: wrap_int64_def)

lemma IncCheckReset_counts:
  "s \<noteq> k \<Longrightarrow> counts (snd (IncCheckReset k tn tick w)) s = counts w s"
  by (simp add: IncCheckReset_def split: prod.splits)

text \<open>Logging one entry through a sampled pipeline touches no level and only the entry's counter.\<close>

lemma sampler_Log_world:
  assumes "core lg = Sampler p tick cnt f th" "plain a p"
  shows "levels (snd (Logger_Log lg e fl w)) = levels w"
    and "s \<noteq> counters_get cnt (ent_Level e) (ent_Message e) \<Longrightarrow>
           counts (snd (Logger_Log lg e fl w)) s = counts w s"
proof -
  let ?k = "counters_get cnt (ent_Level e) (ent_Message e)"
  let ?I = "IncCheckReset ?k (ent_Time e) tick w"
  have cases: "snd (Logger_Log lg e fl w) = w \<or> snd (Logger_Log lg e fl w) = snd ?I"
    using assms
    by (auto simp: Logger_Log_def Logger_check_def plain_Enabled plain_Check split: prod.splits)
  show "levels (snd (Logger_Log lg e fl w)) = levels w"
    using cases IncCheckReset_levels[of ?k "ent_Time e" tick w] by auto
  show "counts (snd (Logger_Log lg e fl w)) s = counts w s" if "s \<noteq> ?k"
    using cases IncCheckReset_counts[OF that, of "ent_Time e" tick w] by auto
qed

lemma sampler_Log_no_counter:
  assumes "core lg = Sampler p tick cnt f th" "plain a p"
    "\<not> (minLevel \<le> ent_Level e \<and> ent_Level e \<le> maxLevel)"
  shows "counts (snd (Logger_Log lg e fl w)) = counts w"
  using assms
  by (auto simp: Logger_Log_def Logger_check_def plain_Enabled plain_Check split: prod.splits)

text \<open>
  The simulation, for one key that is alone on its counter: the table's counter of
  the key agrees with the state \<open>st\<close> of the specification's sampler at the key
  (\<open>None\<close>: the zero counter), with room for the increments to come.
\<close>

lemma sampler_sim_key:
  assumes lg: "core lg = Sampler p Second cnt (of_nat i) (of_nat t)" "plain a p" "Core_sinks p \<noteq> []"
    and it: "i < 2 ^ 64" "t < 2 ^ 64"
    and rng: "minLevel \<le> l" "l \<le> maxLevel"
  shows "alone (l, m) es \<Longrightarrow> stamped (l, m) es \<Longrightarrow> levels w a \<le> l \<Longrightarrow>
     (st (l, m) = None \<longrightarrow> counts w (counters_get cnt l m) = (0, 0)) \<Longrightarrow>
     (\<forall>wend n. st (l, m) = Some (wend, n) \<longrightarrow>
        counts w (counters_get cnt l m) = (wend, of_nat n)
        \<and> n + length (filter (\<lambda>e. key_of e = (l, m)) es) < 2 ^ 64) \<Longrightarrow>
     length (filter (\<lambda>e. key_of e = (l, m)) es) < 2 ^ 64 \<Longrightarrow>
     flags_of (l, m) es (fst (Log_all lg es w))
       = spec_sampler i t st (filter (\<lambda>e. key_of e = (l, m)) es)"
proof (induction es arbitrary: w st)
  case Nil
  show ?case by simp
next
  case (Cons e es)
  let ?F = "filter (\<lambda>e. key_of e = (l, m)) es"
  define slot where "slot = counters_get cnt l m"
  define w1 where "w1 = snd (Logger_Log lg e [] w)"
  have lev1: "levels w1 = levels w"
    unfolding w1_def by (rule sampler_Log_world(1)[OF lg(1,2)])
  have al: "alone (l, m) es" and stp: "stamped (l, m) es"
    using Cons.prems(1,2) by (simp_all add: alone_def stamped_def)
  have split: "fst (Log_all lg (e # es) w) = (fst (Logger_Log lg e [] w) \<noteq> []) # fst (Log_all lg es w1)"
    by (auto simp: w1_def split: prod.splits)
  show ?case
  proof (cases "key_of e = (l, m)")
    case False
    have c1: "counts w1 slot = counts w slot"
    proof (cases "minLevel \<le> ent_Level e \<and> ent_Level e \<le> maxLevel")
      case True
      then have "counters_get 0 (ent_Level e) (ent_Message e) \<noteq> counters_get 0 l m"
        using Cons.prems(1) False by (auto simp: alone_def)
      then have ne: "slot \<noteq> counters_get cnt (ent_Level e) (ent_Message e)"
        unfolding slot_def using counters_get_cnt by metis
      show ?thesis
        unfolding w1_def by (rule sampler_Log_world(2)[OF lg(1,2) ne])
    next
      case out: False
      show ?thesis
        unfolding w1_def by (simp add: sampler_Log_no_counter[OF lg(1,2) out])
    qed
    have IH: "flags_of (l, m) es (fst (Log_all lg es w1)) = spec_sampler i t st ?F"
    proof (rule Cons.IH[OF al stp])
      show "levels w1 a \<le> l" using Cons.prems(3) lev1 by simp
      show "st (l, m) = None \<longrightarrow> counts w1 (counters_get cnt l m) = (0, 0)"
        using Cons.prems(4) c1 by (simp add: slot_def)
      show "\<forall>wend n. st (l, m) = Some (wend, n) \<longrightarrow>
          counts w1 (counters_get cnt l m) = (wend, of_nat n) \<and> n + length ?F < 2 ^ 64"
        using Cons.prems(5) c1 False by (simp add: slot_def)
      show "length ?F < 2 ^ 64" using Cons.prems(6) False by simp
    qed
    show ?thesis
      using False IH unfolding split by simp
  next
    case True
    then have el: "ent_Level e = l" and em: "ent_Message e = m"
      by (simp_all add: key_of_def)
    have tm: "0 \<le> ent_Time e" "ent_Time e + Second < 2 ^ 63"
      using Cons.prems(2) True by (simp_all add: stamped_def)
    have wr: "wrap_int64 (ent_Time e + Second) = ent_Time e + Second"
      using tm by (intro wrap_int64_id) (simp_all add: Second_def)
    define in_window where
      "in_window = (case st (l, m) of Some (wend, n) \<Rightarrow> ent_Time e < wend | None \<Rightarrow> False)"
    define n where "n = (if in_window then snd (the (st (l, m))) + 1 else 1)"
    define wend where "wend = (if in_window then fst (the (st (l, m))) else ent_Time e + Second)"
    define w' where "w' = w\<lparr>counts := (counts w)(slot := (wend, of_nat n))\<rparr>"
    have lenF: "Suc (length ?F) < 2 ^ 64"
      using Cons.prems(6) True by simp
    have ag: "st (l, m) = None \<longrightarrow> counts w slot = (0, 0)"
      "\<forall>wend n. st (l, m) = Some (wend, n) \<longrightarrow>
          counts w slot = (wend, of_nat n) \<and> n + Suc (length ?F) < 2 ^ 64"
      using Cons.prems(4,5) True by (simp_all add: slot_def)
    have inc: "IncCheckReset slot (ent_Time e) Second w = (of_nat n, w')"
      using ag tm(1) wr
      by (auto simp: IncCheckReset_def n_def wend_def w'_def in_window_def add.commute
            split: option.splits)
    have n_bound: "n + length ?F < 2 ^ 64"
      using ag lenF by (auto simp: n_def in_window_def split: option.splits)
    then have n64: "n < 2 ^ 64" by simp
    have en: "levels w a \<le> ent_Level e" "minLevel \<le> ent_Level e" "ent_Level e \<le> maxLevel"
      using Cons.prems(3) rng el by simp_all
    have inc': "IncCheckReset (counters_get cnt (ent_Level e) (ent_Message e)) (ent_Time e) Second w
        = (of_nat n, w')"
      using inc by (simp add: slot_def el em)
    have step1: "w1 = w'"
      unfolding w1_def using sampler_Log(1)[OF lg en inc'] .
    have step2: "(fst (Logger_Log lg e [] w) \<noteq> []) = spec_emit i t n"
      using sampler_Log(2)[OF lg en inc'] keep_iff[OF n64 it] by simp
    have IH: "flags_of (l, m) es (fst (Log_all lg es w1))
        = spec_sampler i t (st((l, m) \<mapsto> (wend, n))) ?F"
    proof (rule Cons.IH[OF al stp])
      show "levels w1 a \<le> l" using Cons.prems(3) lev1 by simp
      show "(st((l, m) \<mapsto> (wend, n))) (l, m) = None \<longrightarrow> counts w1 (counters_get cnt l m) = (0, 0)"
        by simp
      show "\<forall>wend' n'. (st((l, m) \<mapsto> (wend, n))) (l, m) = Some (wend', n') \<longrightarrow>
          counts w1 (counters_get cnt l m) = (wend', of_nat n') \<and> n' + length ?F < 2 ^ 64"
        using n_bound by (simp add: step1 w'_def slot_def)
      show "length ?F < 2 ^ 64" using lenF by simp
    qed
    have "flags_of (l, m) (e # es) (fst (Log_all lg (e # es) w))
        = spec_emit i t n # spec_sampler i t (st((l, m) \<mapsto> (wend, n))) ?F"
      using True step2 IH unfolding split by simp
    also have "\<dots> = spec_sampler i t st (filter (\<lambda>e. key_of e = (l, m)) (e # es))"
      using True by (simp add: Let_def el em n_def wend_def in_window_def)
    finally show ?thesis .
  qed
qed

section \<open>Dropping a destination that cannot be opened\<close>

lemma map_filter_removeAll:
  "f p = None \<Longrightarrow> List.map_filter f (removeAll p xs) = List.map_filter f xs"
  by (induction xs) (auto split: option.splits)

lemma pkg_New_alt:
  "pkg_New fs sn cfg wr w =
     (case NewAtomicLevelAt (parseLevel (pkg_Level cfg)) w of
        (a, w1) \<Rightarrow>
          (case (if sampling_on (pkg_Sampling cfg)
                 then NewSamplerWithOptions (NewTee (pkg_cores fs cfg wr a)) Second
                        (Initial (the (pkg_Sampling cfg))) (Thereafter (the (pkg_Sampling cfg))) w1
                 else (NewTee (pkg_cores fs cfg wr a), w1)) of
             (c, w2) \<Rightarrow>
               (\<lparr>Logger = zap_New c (pkg_buildOptions cfg sn), level = a\<rparr>,
                w2\<lparr>globalLogger := Some (zap_New c (pkg_buildOptions cfg sn))\<rparr>)))"
  by (auto simp: pkg_New_def Let_def pkg_cores_def pkg_output_cores_eq sampling_on_def
        split: option.splits prod.splits)

lemma pkg_New_removeAll:
  assumes "resolve fs p = None"
  shows "pkg_New fs sn (pcfg\<lparr>pkg_OutputPaths := removeAll p (pkg_OutputPaths pcfg)\<rparr>) wr w
           = pkg_New fs sn pcfg wr w"
proof -
  have "pkg_buildCore fs p a ec env = None" for a ec env
    using assms by (simp add: pkg_buildCore_resolve)
  then have "pkg_cores fs (pcfg\<lparr>pkg_OutputPaths := removeAll p (pkg_OutputPaths pcfg)\<rparr>) wr a
           = pkg_cores fs pcfg wr a" for a
    by (simp add: pkg_cores_def map_filter_removeAll)
  moreover have "pkg_buildOptions (pcfg\<lparr>pkg_OutputPaths := removeAll p (pkg_OutputPaths pcfg)\<rparr>) sn
           = pkg_buildOptions pcfg sn"
    by (simp add: pkg_buildOptions_def)
  ultimately show ?thesis
    by (simp add: pkg_New_alt split: prod.splits)
qed

lemma NewWithLevel_alt:
  "NewWithLevel fs sn cfg wr w =
     (case NewAtomicLevelAt (parseLevel (Level cfg)) w of
        (a, w1) \<Rightarrow>
          (case (if sampling_on (Sampling cfg)
                 then NewSamplerWithOptions (NewTee (root_cores fs cfg wr a)) Second
                        (Initial (the (Sampling cfg))) (Thereafter (the (Sampling cfg))) w1
                 else (NewTee (root_cores fs cfg wr a), w1)) of
             (c, w2) \<Rightarrow> ((zap_New c (buildOptions cfg sn), a), w2)))"
  by (auto simp: NewWithLevel_def Let_def root_cores_def export_on_def sampling_on_def
        split: option.splits prod.splits)

lemma NewWithLevel_no_export:
  assumes "resolve fs (ExportPath cfg) = None"
  shows "NewWithLevel fs sn (cfg\<lparr>ExportPath := []\<rparr>) wr w = NewWithLevel fs sn cfg wr w"
proof -
  have "root_cores fs (cfg\<lparr>ExportPath := []\<rparr>) wr a = root_cores fs cfg wr a" for a
    using assms by (simp add: root_cores_def export_on_def buildJSONExportCore_resolve)
  moreover have "buildOptions (cfg\<lparr>ExportPath := []\<rparr>) sn = buildOptions cfg sn"
    by (simp add: buildOptions_def)
  ultimately show ?thesis
    by (simp add: NewWithLevel_alt split: prod.splits)
qed

lemma root_outs_eq:
  "map sink_out (Core_sinks (core (fst (fst (NewWithLevel fs sn cfg wr w))))) =
      [Stdout]
      @ (if export_on cfg then (case resolve fs (ExportPath cfg) of Some d \<Rightarrow> [d] | None \<Rightarrow> [])
         else [])
      @ (case wr of Some x \<Rightarrow> [Writer x] | None \<Rightarrow> [])"
  by (simp add: root_sinks_eq split: option.split)

lemma pkg_outs_eq:
  "map sink_out (Core_sinks (core (Logger (fst (pkg_New fs sn cfg wr w))))) = pkg_outs fs cfg wr"
  by (simp add: pkg_New_sinks_eq comp_def)

lemma plain_keeps: "plain a c \<Longrightarrow> sampler_keeps c ent w"
  by (cases c) auto

lemma root_unsampled_keeps:
  "\<not> sampling_on (Sampling cfg) \<Longrightarrow>
     sampler_keeps (core (fst (fst (NewWithLevel fs sn cfg wr w)))) ent w'"
  by (simp add: NewWithLevel_core plain_keeps[OF plain_With[OF NewTee_plain[OF root_cores_plain]]])

lemma pkg_unsampled_keeps:
  "\<not> sampling_on (pkg_Sampling cfg) \<Longrightarrow>
     sampler_keeps (core (Logger (fst (pkg_New fs sn cfg wr w)))) ent w'"
  by (simp add: pkg_New_core plain_keeps[OF plain_With[OF NewTee_plain[OF pkg_cores_plain]]])

lemma built_sinks_nonempty:
  "Core_sinks (core (fst (fst (NewWithLevel fs sn cfg wr w)))) \<noteq> []"
  "Core_sinks (core (Logger (fst (pkg_New fs sn pcfg wr w)))) \<noteq> []"
proof -
  show "Core_sinks (core (fst (fst (NewWithLevel fs sn cfg wr w)))) \<noteq> []"
    by (simp add: root_sinks_eq)
  have "pkg_outs fs pcfg wr \<noteq> []"
    by (simp add: pkg_outs_def Let_def)
  then show "Core_sinks (core (Logger (fst (pkg_New fs sn pcfg wr w)))) \<noteq> []"
    by (simp add: pkg_New_sinks_eq)
qed

section \<open>The registry lookup\<close>

lemma Global_not_nil: "Global w \<noteq> None"
  by (simp add: Global_def split: option.splits)

lemma Global_nop: "globalLogger w = None \<Longrightarrow> Global w = Some NewNop"
  by (simp add: Global_def)

lemma Global_registered: "globalLogger w = Some l \<Longrightarrow> Global w = Some l"
  by (simp add: Global_def)

text \<open>A context that holds nothing under \<^verbatim>\<open>ctxKey{}\<close> gives the global logger, which is never nil.\<close>

lemma FromContext_fallback: "Ctx_Value c CtxKey = None \<Longrightarrow> FromContext w c = Global w"
  by (simp add: FromContext_def)

lemma FromContext_carried: "Ctx_Value c CtxKey = Some (LoggerPtr l) \<Longrightarrow> FromContext w c = l"
  by (simp add: FromContext_def)

section \<open>Claims\<close>

text \<open>
  C1 (as amended). Let a pipeline be built by \<^verbatim>\<open>NewWithLevel\<close> (root package) or by
  \<^verbatim>\<open>New\<close> of \<^verbatim>\<open>pkg/logger\<close>, and let its atomic level be set to \<open>L\<close> in any store.
  An entry strictly below \<open>L\<close> is delivered to no sink. An entry at or above \<open>L\<close> is
  delivered to every sink of the pipeline (the console sink, the export sink, the
  injected writer's sink) unless the pipeline's sampler drops it, in which case it is
  delivered to none. A pipeline built without sampling (no policy, or
  \<open>initial <= 0\<close>) drops nothing.
\<close>

theorem C1_level_filtering:
  fixes fs :: "string \<Rightarrow> bool" and sn :: string and cfg :: Config and pcfg :: pkg_Config
    and wr :: "nat option" and w0 :: world
  defines "lg \<equiv> fst (fst (NewWithLevel fs sn cfg wr w0))"
    and "a \<equiv> snd (fst (NewWithLevel fs sn cfg wr w0))"
    and "pl \<equiv> fst (pkg_New fs sn pcfg wr w0)"
  shows "map to_sink (fst (Logger_Log lg ent fl (AtomicLevel_SetLevel a L w)))
           = (if L \<le> ent_Level ent \<and> sampler_keeps (core lg) ent (AtomicLevel_SetLevel a L w)
              then Core_sinks (core lg) else [])
       \<and> (\<not> sampling_on (Sampling cfg) \<longrightarrow> sampler_keeps (core lg) ent w)
       \<and> map to_sink (fst (Logger_Log (Logger pl) ent fl (SetLevel pl lv w)))
           = (if parseLevel lv \<le> ent_Level ent \<and> sampler_keeps (core (Logger pl)) ent (SetLevel pl lv w)
              then Core_sinks (core (Logger pl)) else [])
       \<and> (\<not> sampling_on (pkg_Sampling pcfg) \<longrightarrow> sampler_keeps (core (Logger pl)) ent w)"
proof -
  have a: "a = next_addr w0"
    by (simp add: a_def NewWithLevel_level)
  have pa: "level pl = next_addr w0"
    by (simp add: pl_def pkg_New_level)
  have r: "map to_sink (fst (Logger_Log lg ent fl (AtomicLevel_SetLevel a L w)))
           = (if L \<le> ent_Level ent \<and> sampler_keeps (core lg) ent (AtomicLevel_SetLevel a L w)
              then Core_sinks (core lg) else [])"
    using Log_pipeline_sinks[OF NewWithLevel_pipeline, of fs sn cfg wr w0 ent fl
        "AtomicLevel_SetLevel a L w"]
    by (simp add: lg_def a AtomicLevel_SetLevel_def)
  have p: "map to_sink (fst (Logger_Log (Logger pl) ent fl (SetLevel pl lv w)))
           = (if parseLevel lv \<le> ent_Level ent \<and> sampler_keeps (core (Logger pl)) ent (SetLevel pl lv w)
              then Core_sinks (core (Logger pl)) else [])"
    using Log_pipeline_sinks[OF pkg_New_pipeline, of fs sn pcfg wr w0 ent fl "SetLevel pl lv w"]
    by (simp add: pl_def[symmetric] pa SetLevel_def AtomicLevel_SetLevel_def)
  show ?thesis
    using r p root_unsampled_keeps[of cfg fs sn wr w0 ent w]
      pkg_unsampled_keeps[of pcfg fs sn wr w0 ent w]
    by (simp add: lg_def pl_def)
qed

text \<open>
  The theorem at work: the level of the pipeline built from \<open>once_config\<close> is set to
  warn; the info entry \<open>hello 0\<close> reaches no sink, and the warn entry \<open>disk_full\<close>
  (the first of its kind, so the sampler keeps it) reaches standard output and the
  injected writer.
\<close>

theorem C1_witness:
  "fst (Logger_Log (fst (fst (NewWithLevel (\<lambda>p. True) ''svc'' once_config (Some 0) init_world)))
       (hello 0) []
       (AtomicLevel_SetLevel (snd (fst (NewWithLevel (\<lambda>p. True) ''svc'' once_config (Some 0) init_world)))
          WarnLevel (snd (NewWithLevel (\<lambda>p. True) ''svc'' once_config (Some 0) init_world)))) = []
   \<and> map (sink_out \<circ> to_sink)
       (fst (Logger_Log (fst (fst (NewWithLevel (\<lambda>p. True) ''svc'' once_config (Some 0) init_world)))
         disk_full []
         (AtomicLevel_SetLevel (snd (fst (NewWithLevel (\<lambda>p. True) ''svc'' once_config (Some 0) init_world)))
            WarnLevel (snd (NewWithLevel (\<lambda>p. True) ''svc'' once_config (Some 0) init_world)))))
     = [Stdout, Writer 0]"
proof -
  let ?N = "NewWithLevel (\<lambda>p. True) ''svc'' once_config (Some 0) init_world"
  let ?w = "AtomicLevel_SetLevel (snd (fst ?N)) WarnLevel (snd ?N)"
  note t1 = C1_level_filtering [where fs = "\<lambda>p. True" and sn = "''svc''" and cfg = once_config
      and wr = "Some 0" and ?w0.0 = init_world and ent = "hello 0" and fl = "[]" and L = WarnLevel
      and w = "snd ?N", THEN conjunct1]
  note t2 = C1_level_filtering [where fs = "\<lambda>p. True" and sn = "''svc''" and cfg = once_config
      and wr = "Some 0" and ?w0.0 = init_world and ent = disk_full and fl = "[]" and L = WarnLevel
      and w = "snd ?N", THEN conjunct1]
  have below: "\<not> WarnLevel \<le> ent_Level (hello 0)"
    by (simp add: hello_def level_defs)
  have k: "sampler_keeps (core (fst (fst ?N))) disk_full ?w"
    by (simp add: NewWithLevel_alt zap_New_core once_config_def
        DefaultLoggerConfig_def sampling_on_def disk_full_def level_defs IncCheckReset_def
        wrap_int64_def Second_def
        AtomicLevel_SetLevel_def NewSamplerWithOptions_def NewAtomicLevelAt_def init_world_def
        counters_get_def)
  have at: "WarnLevel \<le> ent_Level disk_full"
    by (simp add: disk_full_def)
  have outs: "map sink_out (Core_sinks (core (fst (fst ?N)))) = [Stdout, Writer 0]"
    by (simp add: root_outs_eq export_on_def once_config_def DefaultLoggerConfig_def
        EnvLocal_def EnvDev_def EnvProd_def)
  have 1: "fst (Logger_Log (fst (fst ?N)) (hello 0) [] ?w) = []"
    using t1 below by simp
  have "map to_sink (fst (Logger_Log (fst (fst ?N)) disk_full [] ?w)) = Core_sinks (core (fst (fst ?N)))"
    using t2 k at by simp
  then have 2: "map (sink_out \<circ> to_sink) (fst (Logger_Log (fst (fst ?N)) disk_full [] ?w))
      = [Stdout, Writer 0]"
    using outs by (simp flip: map_map)
  from 1 2 show ?thesis by simp
qed

text \<open>
  An entry at the level that reaches no sink: with the policy
  \<open>{initial: 1, thereafter: 0}\<close> and the level at info, the info entry \<open>hello\<close> is
  logged at time 0 and again one nanosecond later; the second is delivered nowhere.
\<close>

theorem C1_counterexample:
  "AtomicLevel_Level (snd (fst (NewWithLevel (\<lambda>p. True) ''svc'' once_config (Some 0) init_world)))
      (snd (NewWithLevel (\<lambda>p. True) ''svc'' once_config (Some 0) init_world)) \<le> ent_Level (hello 1)
   \<and> fst (Logger_Log (fst (fst (NewWithLevel (\<lambda>p. True) ''svc'' once_config (Some 0) init_world)))
        (hello 1) []
        (snd (Logger_Log (fst (fst (NewWithLevel (\<lambda>p. True) ''svc'' once_config (Some 0) init_world)))
           (hello 0) []
           (snd (NewWithLevel (\<lambda>p. True) ''svc'' once_config (Some 0) init_world))))) = []"
  by (simp add: NewWithLevel_alt once_config_def DefaultLoggerConfig_def NewAtomicLevelAt_def init_world_def
     sampling_on_def NewSamplerWithOptions_def root_cores_def export_on_def EnvLocal_def EnvDev_def EnvProd_def
     buildConsoleCore_def zap_New_def buildOptions_def parseLevel_def level_defs zap_String_def
     AtomicLevel_Level_def hello_def Logger_Log_def Logger_check_def IncCheckReset_def counters_get_def
     wrap_int64_def Second_def)

text \<open>
  C2 (as amended). Let a pipeline be built with the sampling policy
  \<open>{initial: i, thereafter: t}\<close>, \<open>0 < i\<close>, \<open>0 <= t\<close> (Go \<^verbatim>\<open>int\<close>s, below \<open>2^63\<close>), and let
  any stream of entries be logged through it, one after another. Let \<open>(l, m)\<close> be a
  (level, message) key that shares its counter of the sampler's table with no other
  key of the stream (the table has one counter per level and per value of the
  message's 32-bit FNV-1a hash modulo 4096), whose level the pipeline's level enables
  and is one of debug to fatal, whose entries are stamped at or after the epoch and
  more than a second before the last instant an \<^verbatim>\<open>int64\<close> of nanoseconds holds, and
  which occurs fewer than \<open>2^64\<close> times. Then the occurrences of the key that are
  delivered are exactly those the specification's sampler emits on them: the \<open>n\<close>-th
  occurrence of the key in its one-second window is emitted iff \<open>n <= i\<close>, or \<open>t > 0\<close>
  and \<open>(n - i) mod t = 0\<close>; an occurrence at or after the end of the window counts as
  the first of a new window. The other entries of the stream are any entries.
\<close>

theorem C2_sampling_rule:
  fixes fs :: "string \<Rightarrow> bool" and sn :: string and cfg :: Config and pcfg :: pkg_Config
    and wr :: "nat option" and w0 :: world
  defines "root \<equiv> NewWithLevel fs sn cfg wr w0"
    and "pl \<equiv> pkg_New fs sn pcfg wr w0"
  assumes policy: "Sampling cfg = Some \<lparr>Initial = i, Thereafter = t\<rparr>"
      "pkg_Sampling pcfg = Some \<lparr>Initial = i, Thereafter = t\<rparr>"
    and it: "0 < i" "i < 2 ^ 63" "0 \<le> t" "t < 2 ^ 63"
    and al: "alone (l, m) es"
    and en: "parseLevel (Level cfg) \<le> l" "parseLevel (pkg_Level pcfg) \<le> l"
    and rng: "minLevel \<le> l" "l \<le> maxLevel"
    and st: "stamped (l, m) es"
    and len: "length (filter (\<lambda>e. key_of e = (l, m)) es) < 2 ^ 64"
  shows "flags_of (l, m) es (fst (Log_all (fst (fst root)) es (snd root)))
           = spec_sampler (nat i) (nat t) (\<lambda>k. None) (filter (\<lambda>e. key_of e = (l, m)) es)
       \<and> flags_of (l, m) es (fst (Log_all (Logger (fst pl)) es (snd pl)))
           = spec_sampler (nat i) (nat t) (\<lambda>k. None) (filter (\<lambda>e. key_of e = (l, m)) es)"
proof -
  have wi: "word_of_int i = (of_nat (nat i) :: 64 word)" "word_of_int t = (of_nat (nat t) :: 64 word)"
    using it by simp_all
  have b: "nat i < 2 ^ 64" "nat t < 2 ^ 64"
    using it by (simp_all add: nat_less_iff)
  have son: "sampling_on (Sampling cfg)" "sampling_on (pkg_Sampling pcfg)"
    using policy it by (simp_all add: sampling_on_def)
  let ?a = "next_addr w0"
  let ?cnt = "Suc (next_addr w0)"
  let ?pr = "Core_With (NewTee (root_cores fs cfg wr ?a)) [zap_String ''service'' sn]"
  let ?pp = "Core_With (NewTee (pkg_cores fs pcfg wr ?a)) [zap_String ''service'' sn]"
  have core_r: "core (fst (fst root)) = Sampler ?pr Second ?cnt (of_nat (nat i)) (of_nat (nat t))"
    using son(1) policy(1) by (simp add: root_def NewWithLevel_core wi)
  have core_p: "core (Logger (fst pl)) = Sampler ?pp Second ?cnt (of_nat (nat i)) (of_nat (nat t))"
    using son(2) policy(2) by (simp add: pl_def pkg_New_core wi)
  have plain_r: "plain ?a ?pr"
    by (rule plain_With[OF NewTee_plain[OF root_cores_plain]])
  have plain_p: "plain ?a ?pp"
    by (rule plain_With[OF NewTee_plain[OF pkg_cores_plain]])
  have ne_r: "Core_sinks ?pr \<noteq> []"
    using built_sinks_nonempty(1)[of fs sn cfg wr w0] core_r by (simp add: root_def)
  have ne_p: "Core_sinks ?pp \<noteq> []"
    using built_sinks_nonempty(2)[of fs sn pcfg wr w0] core_p by (simp add: pl_def)
  have counts_r: "counts (snd root) (?cnt, x, y) = (0, 0)" for x y
    using son(1) by (simp add: root_def NewWithLevel_alt NewAtomicLevelAt_def NewSamplerWithOptions_def)
  have counts_p: "counts (snd pl) (?cnt, x, y) = (0, 0)" for x y
    using son(2) by (simp add: pl_def pkg_New_alt NewAtomicLevelAt_def NewSamplerWithOptions_def)
  have z_r: "counts (snd root) (counters_get ?cnt l m) = (0, 0)"
    by (simp add: counters_get_def counts_r)
  have z_p: "counts (snd pl) (counters_get ?cnt l m) = (0, 0)"
    by (simp add: counters_get_def counts_p)
  have lev_r: "levels (snd root) ?a \<le> l"
    using en(1) by (simp add: root_def NewWithLevel_level)
  have lev_p: "levels (snd pl) ?a \<le> l"
    using en(2) by (simp add: pl_def pkg_New_level)
  have r: "flags_of (l, m) es (fst (Log_all (fst (fst root)) es (snd root)))
      = spec_sampler (nat i) (nat t) (\<lambda>k. None) (filter (\<lambda>e. key_of e = (l, m)) es)"
    by (rule sampler_sim_key[OF core_r plain_r ne_r b rng al st lev_r _ _ len]) (simp_all add: z_r)
  have p: "flags_of (l, m) es (fst (Log_all (Logger (fst pl)) es (snd pl)))
      = spec_sampler (nat i) (nat t) (\<lambda>k. None) (filter (\<lambda>e. key_of e = (l, m)) es)"
    by (rule sampler_sim_key[OF core_p plain_p ne_p b rng al st lev_p _ _ len]) (simp_all add: z_p)
  from r p show ?thesis by simp
qed

text \<open>
  The theorem at work on the specification's example, with other keys in between:
  the policy \<open>{initial: 2, thereafter: 3}\<close>, ten entries \<open>hello\<close> within one second and
  an eleventh one second after the first, among entries \<open>d2\<close> and \<open>np\<close> (which collide
  with each other, not with \<open>hello\<close>) and a debug entry. Of the occurrences of \<open>hello\<close>
  exactly #1, #2, #5 and #8 are delivered, and the eleventh, the first of a new
  window.
\<close>

theorem C2_witness:
  "flags_of (InfoLevel, ''hello'') mixed_stream
     (fst (Log_all (fst (fst (NewWithLevel (\<lambda>p. True) ''svc'' two_three_config (Some 0) init_world)))
        mixed_stream (snd (NewWithLevel (\<lambda>p. True) ''svc'' two_three_config (Some 0) init_world))))
     = [True, True, False, False, True, False, False, True, False, False, True]
   \<and> flags_of (InfoLevel, ''hello'') mixed_stream
     (fst (Log_all (Logger (fst (pkg_New (\<lambda>p. True) ''svc'' pkg_two_three_config (Some 0) init_world)))
        mixed_stream (snd (pkg_New (\<lambda>p. True) ''svc'' pkg_two_three_config (Some 0) init_world))))
     = [True, True, False, False, True, False, False, True, False, False, True]"
proof -
  have policy: "Sampling two_three_config = Some \<lparr>Initial = 2, Thereafter = 3\<rparr>"
    "pkg_Sampling pkg_two_three_config = Some \<lparr>Initial = 2, Thereafter = 3\<rparr>"
    by (simp_all add: two_three_config_def pkg_two_three_config_def)
  have it: "(0::int) < 2" "(2::int) < 2 ^ 63" "(0::int) \<le> 3" "(3::int) < 2 ^ 63"
    by simp_all
  have al: "alone (InfoLevel, ''hello'') mixed_stream"
    by (simp add: alone_def mixed_stream_def hello_def info_def key_of_def counters_get_def
        fnv32a_def level_defs countersPerLevel_def)
  have en: "parseLevel (Level two_three_config) \<le> InfoLevel"
    "parseLevel (pkg_Level pkg_two_three_config) \<le> InfoLevel"
    by (simp_all add: two_three_config_def pkg_two_three_config_def DefaultLoggerConfig_def
        pkg_DefaultLoggerConfig_def parseLevel_def level_defs)
  have rng: "minLevel \<le> InfoLevel" "InfoLevel \<le> maxLevel"
    by (simp_all add: level_defs)
  have st: "stamped (InfoLevel, ''hello'') mixed_stream"
    by (simp add: stamped_def mixed_stream_def hello_def info_def key_of_def Second_def level_defs)
  have len: "length (filter (\<lambda>e. key_of e = (InfoLevel, ''hello'')) mixed_stream) < 2 ^ 64"
    by (simp add: mixed_stream_def hello_def info_def key_of_def level_defs)
  have spec: "spec_sampler (nat 2) (nat 3) (\<lambda>k. None)
       (filter (\<lambda>e. key_of e = (InfoLevel, ''hello'')) mixed_stream)
      = [True, True, False, False, True, False, False, True, False, False, True]"
    by code_simp
  show ?thesis
    using C2_sampling_rule [where fs = "\<lambda>p. True" and sn = "''svc''" and cfg = two_three_config
        and pcfg = pkg_two_three_config and wr = "Some 0" and ?w0.0 = init_world
        and es = mixed_stream and l = InfoLevel and m = "''hello''",
        OF policy it al en rng st len]
    unfolding spec .
qed

text \<open>
  Three streams on which the pipeline built with the policy
  \<open>{initial: 1, thereafter: 0}\<close> and the specification's sampler differ.
  \<^item> Two keys on one counter: the messages \<open>d2\<close> and \<open>np\<close> have the same FNV-1a hash
    modulo 4096 (slot 595). The specification emits the first occurrence of each;
    the pipeline delivers \<open>d2\<close> and drops \<open>np\<close>, which the shared counter counts as a
    second occurrence.
  \<^item> Three identical entries at the nanosecond \<open>2^63 - 1\<close>: the specification emits the
    first only; in the pipeline the end of the window, the time plus one second,
    wraps to a negative \<^verbatim>\<open>int64\<close>, every entry opens a new window and all three are
    delivered.
  \<^item> Two identical entries two seconds apart, before the epoch: the specification
    emits both, each the first of its window; in the pipeline the counter's initial
    window end \<open>0\<close> lies after both, the second entry is counted as the second of the
    window and dropped.
\<close>

theorem C2_counterexample:
  "spec_sampler 1 0 (\<lambda>k. None) colliding_pair = [True, True]
   \<and> fst (Log_all (fst (fst (NewWithLevel (\<lambda>p. True) ''svc'' once_config (Some 0) init_world)))
          colliding_pair (snd (NewWithLevel (\<lambda>p. True) ''svc'' once_config (Some 0) init_world)))
     = [True, False]
   \<and> spec_sampler 1 0 (\<lambda>k. None) late_triple = [True, False, False]
   \<and> fst (Log_all (fst (fst (NewWithLevel (\<lambda>p. True) ''svc'' once_config (Some 0) init_world)))
          late_triple (snd (NewWithLevel (\<lambda>p. True) ''svc'' once_config (Some 0) init_world)))
     = [True, True, True]
   \<and> spec_sampler 1 0 (\<lambda>k. None) early_pair = [True, True]
   \<and> fst (Log_all (fst (fst (NewWithLevel (\<lambda>p. True) ''svc'' once_config (Some 0) init_world)))
          early_pair (snd (NewWithLevel (\<lambda>p. True) ''svc'' once_config (Some 0) init_world)))
     = [True, False]"
proof -
  note ev = NewWithLevel_alt once_config_def DefaultLoggerConfig_def NewAtomicLevelAt_def
       init_world_def sampling_on_def NewSamplerWithOptions_def root_cores_def export_on_def
       EnvLocal_def EnvDev_def EnvProd_def buildConsoleCore_def zap_New_def buildOptions_def
       parseLevel_def level_defs zap_String_def Logger_Log_def Logger_check_def
       IncCheckReset_def counters_get_def countersPerLevel_def Second_def wrap_int64_def
       hello_def info_def
  have s1: "spec_sampler 1 0 (\<lambda>k. None) colliding_pair = [True, True]"
    by code_simp
  have s2: "spec_sampler 1 0 (\<lambda>k. None) late_triple = [True, False, False]"
    by code_simp
  have s3: "spec_sampler 1 0 (\<lambda>k. None) early_pair = [True, True]"
    by code_simp
  have h: "unat (fnv32a ''d2'') mod 4096 = 595" "unat (fnv32a ''np'') mod 4096 = 595"
    by (simp_all add: fnv32a_def)
  have c1: "fst (Log_all (fst (fst (NewWithLevel (\<lambda>p. True) ''svc'' once_config (Some 0) init_world)))
          colliding_pair (snd (NewWithLevel (\<lambda>p. True) ''svc'' once_config (Some 0) init_world)))
     = [True, False]"
    by (simp add: ev colliding_pair_def h)
  have c2: "fst (Log_all (fst (fst (NewWithLevel (\<lambda>p. True) ''svc'' once_config (Some 0) init_world)))
          late_triple (snd (NewWithLevel (\<lambda>p. True) ''svc'' once_config (Some 0) init_world)))
     = [True, True, True]"
    by (simp add: ev late_triple_def)
  have c3: "fst (Log_all (fst (fst (NewWithLevel (\<lambda>p. True) ''svc'' once_config (Some 0) init_world)))
          early_pair (snd (NewWithLevel (\<lambda>p. True) ''svc'' once_config (Some 0) init_world)))
     = [True, False]"
    by (simp add: ev early_pair_def)
  from s1 c1 s2 c2 s3 c3 show ?thesis by simp
qed

text \<open>
  C3 (as amended). Encoder selection.
  \<^item> Root package, \<open>local\<close> or \<open>development\<close> (any environment other than \<open>dev\<close> and
    \<open>prod\<close>), or no export path: every sink has the console encoder.
  \<^item> Root package, \<open>dev\<close> or \<open>prod\<close> with an export path that resolves to a destination
    (\<open>stdout\<close>, \<open>stderr\<close>, or a file that can be opened): the console encoder on
    standard output and the JSON encoder on the export destination, both in the one
    pipeline (followed by the console encoder on the injected writer, if any).
  \<^item> Root package, an export path that cannot be opened: every sink has the console
    encoder.
  \<^item> \<^verbatim>\<open>pkg/logger\<close> (which has no export destination): in the environment
    \<open>development\<close> every sink has the console encoder; in \<open>local\<close>, as in any
    environment other than \<open>development\<close>, every sink has the JSON encoder.
\<close>

theorem C3_encoder_selection:
  "((Environment cfg \<noteq> EnvDev \<and> Environment cfg \<noteq> EnvProd) \<or> ExportPath cfg = [] \<longrightarrow>
      list_all (\<lambda>s. sink_enc s = NewConsoleEncoder consoleEncoderConfig)
        (Core_sinks (core (fst (fst (NewWithLevel fs sn cfg wr w))))))
   \<and> ((Environment cfg = EnvDev \<or> Environment cfg = EnvProd) \<and> ExportPath cfg \<noteq> []
        \<and> resolve fs (ExportPath cfg) = Some dest \<longrightarrow>
      map (\<lambda>s. (sink_enc s, sink_out s)) (Core_sinks (core (fst (fst (NewWithLevel fs sn cfg wr w)))))
        = [(NewConsoleEncoder consoleEncoderConfig, Stdout), (NewJSONEncoder jsonEncoderConfig, dest)]
          @ (case wr of Some x \<Rightarrow> [(NewConsoleEncoder consoleEncoderConfig, Writer x)] | None \<Rightarrow> []))
   \<and> (resolve fs (ExportPath cfg) = None \<longrightarrow>
      list_all (\<lambda>s. sink_enc s = NewConsoleEncoder consoleEncoderConfig)
        (Core_sinks (core (fst (fst (NewWithLevel fs sn cfg wr w))))))
   \<and> (pkg_Environment pcfg = ''development'' \<longrightarrow>
      list_all (\<lambda>s. is_console (sink_enc s))
        (Core_sinks (core (Logger (fst (pkg_New fs sn pcfg wr w))))))
   \<and> (pkg_Environment pcfg \<noteq> ''development'' \<longrightarrow>
      list_all (\<lambda>s. \<not> is_console (sink_enc s))
        (Core_sinks (core (Logger (fst (pkg_New fs sn pcfg wr w))))))"
proof -
  let ?S = "Core_sinks (core (fst (fst (NewWithLevel fs sn cfg wr w))))"
  have a: "list_all (\<lambda>s. sink_enc s = NewConsoleEncoder consoleEncoderConfig) ?S"
    if "(Environment cfg \<noteq> EnvDev \<and> Environment cfg \<noteq> EnvProd) \<or> ExportPath cfg = []"
  proof -
    have "\<not> export_on cfg" using that by (auto simp: export_on_def)
    then show ?thesis by (cases wr) (simp_all add: root_sinks_eq)
  qed
  have b: "map (\<lambda>s. (sink_enc s, sink_out s)) ?S
        = [(NewConsoleEncoder consoleEncoderConfig, Stdout), (NewJSONEncoder jsonEncoderConfig, dest)]
          @ (case wr of Some x \<Rightarrow> [(NewConsoleEncoder consoleEncoderConfig, Writer x)] | None \<Rightarrow> [])"
    if "(Environment cfg = EnvDev \<or> Environment cfg = EnvProd) \<and> ExportPath cfg \<noteq> []
        \<and> resolve fs (ExportPath cfg) = Some dest"
  proof -
    have "export_on cfg" using that by (auto simp: export_on_def)
    moreover have "resolve fs (ExportPath cfg) = Some dest" using that by simp
    ultimately show ?thesis by (cases wr) (simp_all add: root_sinks_eq)
  qed
  have c: "list_all (\<lambda>s. sink_enc s = NewConsoleEncoder consoleEncoderConfig) ?S"
    if "resolve fs (ExportPath cfg) = None"
    using that by (cases wr; cases "export_on cfg") (simp_all add: root_sinks_eq)
  have d: "list_all (\<lambda>s. is_console (sink_enc s))
        (Core_sinks (core (Logger (fst (pkg_New fs sn pcfg wr w)))))"
    if "pkg_Environment pcfg = ''development''"
    using that by (simp add: pkg_New_sinks_eq list_all_iff pkg_newEncoder_def)
  have e: "list_all (\<lambda>s. \<not> is_console (sink_enc s))
        (Core_sinks (core (Logger (fst (pkg_New fs sn pcfg wr w)))))"
    if "pkg_Environment pcfg \<noteq> ''development''"
    using that by (simp add: pkg_New_sinks_eq list_all_iff pkg_newEncoder_def)
  from a b c d e show ?thesis by blast
qed

text \<open>
  The theorem at work: \<open>prod\<close> with an export file that opens gives the console sink
  on standard output, the JSON sink on the file and the console sink on the injected
  writer; the default (\<open>local\<close>) configuration gives console sinks only; \<^verbatim>\<open>pkg/logger\<close>
  gives console sinks in \<open>development\<close> and JSON sinks in \<open>production\<close>.
\<close>

theorem C3_witness:
  "map (\<lambda>s. (sink_enc s, sink_out s))
     (Core_sinks (core (fst (fst (NewWithLevel (\<lambda>p. True) ''svc''
        (DefaultLoggerConfig\<lparr>Environment := EnvProd, ExportPath := ''/var/log/app.json''\<rparr>)
        (Some 0) init_world)))))
   = [(NewConsoleEncoder consoleEncoderConfig, Stdout),
      (NewJSONEncoder jsonEncoderConfig, File ''/var/log/app.json''),
      (NewConsoleEncoder consoleEncoderConfig, Writer 0)]
   \<and> list_all (\<lambda>s. sink_enc s = NewConsoleEncoder consoleEncoderConfig)
        (Core_sinks (core (fst (fst (NewWithLevel (\<lambda>p. True) ''svc'' DefaultLoggerConfig
           (Some 0) init_world)))))
   \<and> list_all (\<lambda>s. is_console (sink_enc s))
        (Core_sinks (core (Logger (fst (pkg_New (\<lambda>p. True) ''svc''
           (pkg_DefaultLoggerConfig\<lparr>pkg_Environment := ''development''\<rparr>) (Some 0) init_world)))))
   \<and> list_all (\<lambda>s. \<not> is_console (sink_enc s))
        (Core_sinks (core (Logger (fst (pkg_New (\<lambda>p. True) ''svc''
           pkg_DefaultLoggerConfig (Some 0) init_world)))))"
  using
    C3_encoder_selection [of
      "DefaultLoggerConfig\<lparr>Environment := EnvProd, ExportPath := ''/var/log/app.json''\<rparr>"
      "\<lambda>p. True" "''svc''" "Some 0" init_world "File ''/var/log/app.json''"
      "pkg_DefaultLoggerConfig\<lparr>pkg_Environment := ''development''\<rparr>"]
    C3_encoder_selection [of DefaultLoggerConfig "\<lambda>p. True" "''svc''" "Some 0" init_world
      Stdout pkg_DefaultLoggerConfig]
  by (simp add: resolve_def DefaultLoggerConfig_def pkg_DefaultLoggerConfig_def
      EnvProd_def EnvDev_def EnvLocal_def)

text \<open>
  Two configurations against the claim as first stated.
  \<^item> Root package, \<open>prod\<close> with an export path configured, on a file system where no
    file can be opened: the pipeline has the console sink on standard output and no
    JSON sink.
  \<^item> \<^verbatim>\<open>pkg/logger\<close>, environment \<open>local\<close>: the pipeline has one sink, on standard
    output, with the JSON encoder, and no console sink.
\<close>

theorem C3_counterexample:
  "Environment (DefaultLoggerConfig\<lparr>Environment := EnvProd, ExportPath := ''/no/such/dir/app.json''\<rparr>)
     = EnvProd
   \<and> ExportPath (DefaultLoggerConfig\<lparr>Environment := EnvProd, ExportPath := ''/no/such/dir/app.json''\<rparr>)
     = ''/no/such/dir/app.json''
   \<and> map (\<lambda>s. (sink_enc s, sink_out s))
       (Core_sinks (core (fst (fst (NewWithLevel (\<lambda>p. False) ''svc''
          (DefaultLoggerConfig\<lparr>Environment := EnvProd, ExportPath := ''/no/such/dir/app.json''\<rparr>)
          None init_world)))))
     = [(NewConsoleEncoder consoleEncoderConfig, Stdout)]
   \<and> pkg_Environment (pkg_DefaultLoggerConfig\<lparr>pkg_Environment := ''local''\<rparr>) = ''local''
   \<and> map (\<lambda>s. (sink_enc s, sink_out s))
       (Core_sinks (core (Logger (fst (pkg_New (\<lambda>p. True) ''svc''
          (pkg_DefaultLoggerConfig\<lparr>pkg_Environment := ''local''\<rparr>) None init_world)))))
     = [(NewJSONEncoder (pkg_newEncoderConfig ''local''), Stdout)]"
  by (simp add: root_sinks_eq pkg_New_sinks_eq pkg_outs_def pkg_newEncoder_def resolve_def
      export_on_def DefaultLoggerConfig_def pkg_DefaultLoggerConfig_def)

text \<open>
  C4. Every pipeline built by \<^verbatim>\<open>New\<close> or \<^verbatim>\<open>NewWithLevel\<close> has at least one sink, for
  every configuration, file system and writer. In \<^verbatim>\<open>pkg/logger\<close>, when no output
  path resolves and no writer is injected, the pipeline has the single sink standard
  output; in the root package, when the export core is not asked for or cannot be
  built and no writer is injected, it has the single sink standard output.
\<close>

theorem C4_at_least_one_sink:
  "Core_sinks (core (fst (fst (NewWithLevel fs sn cfg wr w)))) \<noteq> []
   \<and> Core_sinks (core (fst (New fs sn cfg wr w))) \<noteq> []
   \<and> Core_sinks (core (Logger (fst (pkg_New fs sn pcfg wr w)))) \<noteq> []
   \<and> ((\<forall>p \<in> set (pkg_OutputPaths pcfg).
          pkg_buildCore fs p (next_addr w) (pkg_newEncoderConfig (pkg_Environment pcfg))
            (pkg_Environment pcfg) = None) \<longrightarrow>
        map sink_out (Core_sinks (core (Logger (fst (pkg_New fs sn pcfg None w))))) = [Stdout])
   \<and> ((export_on cfg \<longrightarrow> buildJSONExportCore fs (ExportPath cfg) (next_addr w) = None) \<longrightarrow>
        map sink_out (Core_sinks (core (fst (fst (NewWithLevel fs sn cfg None w))))) = [Stdout])"
proof -
  have r: "Core_sinks (core (fst (fst (NewWithLevel fs sn cfg wr w)))) \<noteq> []"
    by (simp add: root_sinks_eq)
  have "pkg_outs fs pcfg wr \<noteq> []"
    by (simp add: pkg_outs_def Let_def)
  then have p: "Core_sinks (core (Logger (fst (pkg_New fs sn pcfg wr w)))) \<noteq> []"
    by (simp add: pkg_New_sinks_eq)
  have pf: "map sink_out (Core_sinks (core (Logger (fst (pkg_New fs sn pcfg None w))))) = [Stdout]"
    if "\<forall>p \<in> set (pkg_OutputPaths pcfg).
          pkg_buildCore fs p (next_addr w) (pkg_newEncoderConfig (pkg_Environment pcfg))
            (pkg_Environment pcfg) = None"
  proof -
    have "\<forall>p \<in> set (pkg_OutputPaths pcfg). resolve fs p = None"
      using that by (simp add: pkg_buildCore_resolve)
    then have "List.map_filter (resolve fs) (pkg_OutputPaths pcfg) = []"
      by (simp add: List.map_filter_def filter_empty_conv)
    then have "pkg_outs fs pcfg None = [Stdout]"
      by (simp add: pkg_outs_def)
    then show ?thesis
      by (simp add: pkg_New_sinks_eq comp_def)
  qed
  have rf: "map sink_out (Core_sinks (core (fst (fst (NewWithLevel fs sn cfg None w))))) = [Stdout]"
    if "export_on cfg \<longrightarrow> buildJSONExportCore fs (ExportPath cfg) (next_addr w) = None"
    using that by (cases "export_on cfg") (simp_all add: root_sinks_eq buildJSONExportCore_resolve)
  show ?thesis
    using r p pf rf by (simp add: New_NewWithLevel)
qed

text \<open>
  The theorem at work: with no file that can be opened and no writer, both packages'
  pipelines have the one sink standard output.
\<close>

theorem C4_witness:
  "map sink_out (Core_sinks (core (Logger (fst (pkg_New (\<lambda>p. False) ''svc''
       (pkg_DefaultLoggerConfig\<lparr>pkg_OutputPaths := [''/no/such/dir/app.log'']\<rparr>) None init_world)))))
     = [Stdout]
   \<and> map sink_out (Core_sinks (core (fst (fst (NewWithLevel (\<lambda>p. False) ''svc''
       (DefaultLoggerConfig\<lparr>Environment := EnvProd, ExportPath := ''/no/such/dir/app.json''\<rparr>)
       None init_world))))) = [Stdout]"
  using C4_at_least_one_sink [of "\<lambda>p. False" "''svc''"
      "DefaultLoggerConfig\<lparr>Environment := EnvProd, ExportPath := ''/no/such/dir/app.json''\<rparr>"
      None init_world
      "pkg_DefaultLoggerConfig\<lparr>pkg_OutputPaths := [''/no/such/dir/app.log'']\<rparr>"]
  by (simp add: pkg_buildCore_def buildJSONExportCore_def)

text \<open>
  C5. A file destination that cannot be opened (a path other than \<open>stdout\<close> and
  \<open>stderr\<close> for which \<^verbatim>\<open>os.OpenFile\<close> fails):
  \<^item> \<^verbatim>\<open>buildCore\<close> and \<^verbatim>\<open>buildJSONExportCore\<close> return the nil core for it;
  \<^item> construction returns the very logger and store it returns for the configuration
    without that destination (\<^verbatim>\<open>pkg/logger\<close>: the path removed from the output
    paths; root package: the export path empty), so the caller sees no error and no
    trace of the failure;
  \<^item> an entry that the level enables and the sampler keeps is still delivered to
    every output path that resolves and to the injected writer (\<^verbatim>\<open>pkg/logger\<close>), and
    to standard output and the injected writer (root package).
\<close>

theorem C5_unopenable_destination_dropped:
  assumes "p \<noteq> ''stdout''" and "p \<noteq> ''stderr''" and "\<not> fs p"
  shows "pkg_buildCore fs p a ec env = None
       \<and> buildJSONExportCore fs p a = None
       \<and> (p \<in> set (pkg_OutputPaths pcfg) \<longrightarrow>
            pkg_New fs sn pcfg wr w
              = pkg_New fs sn (pcfg\<lparr>pkg_OutputPaths := removeAll p (pkg_OutputPaths pcfg)\<rparr>) wr w)
       \<and> (ExportPath cfg = p \<longrightarrow>
            NewWithLevel fs sn cfg wr w = NewWithLevel fs sn (cfg\<lparr>ExportPath := []\<rparr>) wr w)
       \<and> (p \<in> set (pkg_OutputPaths pcfg)
            \<and> levels w' (level (fst (pkg_New fs sn pcfg wr w))) \<le> ent_Level ent
            \<and> sampler_keeps (core (Logger (fst (pkg_New fs sn pcfg wr w)))) ent w' \<longrightarrow>
            (\<forall>q \<in> set (pkg_OutputPaths pcfg). \<forall>dest. resolve fs q = Some dest \<longrightarrow>
               dest \<in> set (map (sink_out \<circ> to_sink)
                  (fst (Logger_Log (Logger (fst (pkg_New fs sn pcfg wr w))) ent fl w'))))
            \<and> (\<forall>x. wr = Some x \<longrightarrow>
               Writer x \<in> set (map (sink_out \<circ> to_sink)
                  (fst (Logger_Log (Logger (fst (pkg_New fs sn pcfg wr w))) ent fl w')))))
       \<and> (ExportPath cfg = p
            \<and> levels w' (snd (fst (NewWithLevel fs sn cfg wr w))) \<le> ent_Level ent
            \<and> sampler_keeps (core (fst (fst (NewWithLevel fs sn cfg wr w)))) ent w' \<longrightarrow>
            Stdout \<in> set (map (sink_out \<circ> to_sink)
                  (fst (Logger_Log (fst (fst (NewWithLevel fs sn cfg wr w))) ent fl w')))
            \<and> (\<forall>x. wr = Some x \<longrightarrow>
               Writer x \<in> set (map (sink_out \<circ> to_sink)
                  (fst (Logger_Log (fst (fst (NewWithLevel fs sn cfg wr w))) ent fl w')))))"
proof -
  have r: "resolve fs p = None"
    using assms by (simp add: resolve_def)
  have c1: "pkg_buildCore fs p a ec env = None"
    using r by (simp add: pkg_buildCore_resolve)
  have c2: "buildJSONExportCore fs p a = None"
    using r by (simp add: buildJSONExportCore_resolve)
  have c3: "pkg_New fs sn pcfg wr w
              = pkg_New fs sn (pcfg\<lparr>pkg_OutputPaths := removeAll p (pkg_OutputPaths pcfg)\<rparr>) wr w"
    using pkg_New_removeAll[OF r] by simp
  have c4: "NewWithLevel fs sn cfg wr w = NewWithLevel fs sn (cfg\<lparr>ExportPath := []\<rparr>) wr w"
    if "ExportPath cfg = p"
    using NewWithLevel_no_export[of fs cfg] r that by simp
  let ?lp = "Logger (fst (pkg_New fs sn pcfg wr w))"
  let ?lr = "fst (fst (NewWithLevel fs sn cfg wr w))"
  have outs_p: "map (sink_out \<circ> to_sink) (fst (Logger_Log ?lp ent fl w')) = pkg_outs fs pcfg wr"
    if "levels w' (level (fst (pkg_New fs sn pcfg wr w))) \<le> ent_Level ent"
      "sampler_keeps (core ?lp) ent w'"
  proof -
    have "map to_sink (fst (Logger_Log ?lp ent fl w')) = Core_sinks (core ?lp)"
      using Log_pipeline_sinks[OF pkg_New_pipeline, of fs sn pcfg wr w ent fl w'] that
      by (simp add: pkg_New_level)
    then have "map (sink_out \<circ> to_sink) (fst (Logger_Log ?lp ent fl w'))
        = map sink_out (Core_sinks (core ?lp))"
      by (simp flip: map_map)
    then show ?thesis by (simp add: pkg_outs_eq)
  qed
  have in_p: "dest \<in> set (pkg_outs fs pcfg wr)"
    if "q \<in> set (pkg_OutputPaths pcfg)" "resolve fs q = Some dest" for q dest
  proof -
    have "dest \<in> set (List.map_filter (resolve fs) (pkg_OutputPaths pcfg))"
      using that by (force simp: List.map_filter_def)
    then show ?thesis
      by (auto simp: pkg_outs_def Let_def)
  qed
  have wr_p: "Writer x \<in> set (pkg_outs fs pcfg wr)" if "wr = Some x" for x
    using that by (simp add: pkg_outs_def Let_def)
  have outs_r: "map to_sink (fst (Logger_Log ?lr ent fl w')) = Core_sinks (core ?lr)"
    if "levels w' (snd (fst (NewWithLevel fs sn cfg wr w))) \<le> ent_Level ent"
      "sampler_keeps (core ?lr) ent w'"
    using Log_pipeline_sinks[OF NewWithLevel_pipeline, of fs sn cfg wr w ent fl w'] that
    by (simp add: NewWithLevel_level)
  note souts = root_outs_eq[of fs sn cfg wr w]
  have hd_in: "y \<in> set ([y] @ ys)" for y :: WriteSyncer and ys
    by simp
  have last_in: "y \<in> set (xs @ ys @ [y])" for y :: WriteSyncer and xs ys
    by simp
  have in_r: "Stdout \<in> set (map sink_out (Core_sinks (core ?lr)))"
    unfolding souts by (rule hd_in)
  have wr_r: "Writer x \<in> set (map sink_out (Core_sinks (core ?lr)))" if "wr = Some x" for x
    unfolding root_outs_eq that option.case by (rule last_in)
  have c5: "(\<forall>q \<in> set (pkg_OutputPaths pcfg). \<forall>dest. resolve fs q = Some dest \<longrightarrow>
               dest \<in> set (map (sink_out \<circ> to_sink) (fst (Logger_Log ?lp ent fl w'))))
            \<and> (\<forall>x. wr = Some x \<longrightarrow>
               Writer x \<in> set (map (sink_out \<circ> to_sink) (fst (Logger_Log ?lp ent fl w'))))"
    if "levels w' (level (fst (pkg_New fs sn pcfg wr w))) \<le> ent_Level ent"
      "sampler_keeps (core ?lp) ent w'"
    unfolding outs_p[OF that] using in_p wr_p by blast
  have c6: "Stdout \<in> set (map (sink_out \<circ> to_sink) (fst (Logger_Log ?lr ent fl w')))
            \<and> (\<forall>x. wr = Some x \<longrightarrow>
               Writer x \<in> set (map (sink_out \<circ> to_sink) (fst (Logger_Log ?lr ent fl w'))))"
    if "levels w' (snd (fst (NewWithLevel fs sn cfg wr w))) \<le> ent_Level ent"
      "sampler_keeps (core ?lr) ent w'"
  proof -
    have "map (sink_out \<circ> to_sink) (fst (Logger_Log ?lr ent fl w'))
        = map sink_out (Core_sinks (core ?lr))"
      using outs_r[OF that] by (simp flip: map_map)
    then show ?thesis using in_r wr_r by (simp only:) blast
  qed
  show ?thesis
    using c1 c2 c3 c4 c5 c6 by blast
qed

text \<open>
  The theorem at work, with the path \<^verbatim>\<open>/no/such/dir/app.log\<close> that cannot be opened
  and \<^verbatim>\<open>/var/log/ok.log\<close> that can: construction returns what it returns for the
  second path alone, and a warn entry is delivered to the file of the second path.
\<close>

theorem C5_witness:
  "pkg_New only_ok_log ''svc'' two_paths_config None init_world
    = pkg_New only_ok_log ''svc''
        (two_paths_config\<lparr>pkg_OutputPaths := removeAll ''/no/such/dir/app.log'' (pkg_OutputPaths two_paths_config)\<rparr>)
        None init_world
   \<and> removeAll ''/no/such/dir/app.log'' (pkg_OutputPaths two_paths_config) = [''/var/log/ok.log'']
   \<and> File ''/var/log/ok.log'' \<in> set (map (sink_out \<circ> to_sink)
        (fst (Logger_Log (Logger (fst (pkg_New only_ok_log ''svc'' two_paths_config None init_world)))
           disk_full [] (snd (pkg_New only_ok_log ''svc'' two_paths_config None init_world)))))"
proof -
  let ?p = "''/no/such/dir/app.log''"
  let ?w = "snd (pkg_New only_ok_log ''svc'' two_paths_config None init_world)"
  have h: "?p \<noteq> ''stdout''" "?p \<noteq> ''stderr''" "\<not> only_ok_log ?p"
    by (simp_all add: only_ok_log_def)
  note t = C5_unopenable_destination_dropped [of ?p only_ok_log 0 consoleEncoderConfig "''production''"
      two_paths_config "''svc''" None init_world DefaultLoggerConfig ?w disk_full "[]", OF h]
  have p1: "?p \<in> set (pkg_OutputPaths two_paths_config)"
    by (simp add: two_paths_config_def)
  have p2: "levels ?w (level (fst (pkg_New only_ok_log ''svc'' two_paths_config None init_world)))
      \<le> ent_Level disk_full"
    by (simp add: pkg_New_level two_paths_config_def pkg_DefaultLoggerConfig_def parseLevel_def
        disk_full_def level_defs)
  have p3: "sampler_keeps (core (Logger (fst (pkg_New only_ok_log ''svc'' two_paths_config None init_world))))
      disk_full ?w"
    by (rule pkg_unsampled_keeps) (simp add: sampling_on_def two_paths_config_def)
  have p4: "''/var/log/ok.log'' \<in> set (pkg_OutputPaths two_paths_config)"
    "resolve only_ok_log ''/var/log/ok.log'' = Some (File ''/var/log/ok.log'')"
    by (simp_all add: two_paths_config_def resolve_def only_ok_log_def)
  have p5: "removeAll ?p (pkg_OutputPaths two_paths_config) = [''/var/log/ok.log'']"
    by (simp add: two_paths_config_def)
  from t p1 p2 p3 p4 p5 show ?thesis by blast
qed

text \<open>
  C6. \<^verbatim>\<open>FromContext\<close> returns the handle the context carries, and otherwise the global
  logger, which is the no-op logger before any \<^verbatim>\<open>New\<close> and is never nil (lemmas
  \<open>FromContext_carried\<close>, \<open>FromContext_fallback\<close>, \<open>Global_nop\<close>, \<open>Global_not_nil\<close>).
  But the handle a context carries can be the nil pointer: on a context to which
  \<^verbatim>\<open>WithContext\<close> attached nil, the type assertion succeeds and \<^verbatim>\<open>FromContext\<close>
  returns nil, whatever the global logger is.
\<close>

theorem C6_nil_handle_in_context:
  "FromContext w (WithContext Background None) = None"
  by (simp add: FromContext_def WithContext_def)



text \<open>
  C9. A level string outside the recognised set parses to the info level, and a
  pipeline built from a configuration with such a level (by \<^verbatim>\<open>NewWithLevel\<close>, by
  \<^verbatim>\<open>New\<close>, or by \<^verbatim>\<open>New\<close> of \<^verbatim>\<open>pkg/logger\<close>) starts with its atomic level at info.
  Construction returns a logger in every case: the constructors have no error result.
\<close>

theorem C9_unrecognized_level_is_info:
  assumes "lv \<notin> {''debug'', ''info'', ''warn'', ''warning'', ''error'', ''dpanic'', ''panic'', ''fatal''}"
    and "Level cfg = lv" and "pkg_Level pcfg = lv"
  shows "parseLevel lv = InfoLevel
       \<and> AtomicLevel_Level (snd (fst (NewWithLevel fs sn cfg wr w)))
            (snd (NewWithLevel fs sn cfg wr w)) = InfoLevel
       \<and> GlobalLevel (snd (New fs sn cfg wr w)) = Some (next_addr w)
       \<and> AtomicLevel_Level (next_addr w) (snd (New fs sn cfg wr w)) = InfoLevel
       \<and> GetLevel (fst (pkg_New fs sn pcfg wr w)) (snd (pkg_New fs sn pcfg wr w)) = InfoLevel"
proof -
  have p: "parseLevel lv = InfoLevel"
    using assms(1) by (simp add: parseLevel_def)
  show ?thesis
    using p assms(2,3)
    by (simp add: AtomicLevel_Level_def GetLevel_def GlobalLevel_def NewWithLevel_level
        New_NewWithLevel pkg_New_level)
qed

text \<open>
  The theorem at work on the level string \<open>verbose\<close>.
\<close>

theorem C9_witness:
  "parseLevel ''verbose'' = InfoLevel
   \<and> AtomicLevel_Level (next_addr init_world)
        (snd (New (\<lambda>p. True) ''svc'' (DefaultLoggerConfig\<lparr>Level := ''verbose''\<rparr>) None init_world))
      = InfoLevel
   \<and> GetLevel
        (fst (pkg_New (\<lambda>p. True) ''svc'' (pkg_DefaultLoggerConfig\<lparr>pkg_Level := ''verbose''\<rparr>)
           None init_world))
        (snd (pkg_New (\<lambda>p. True) ''svc'' (pkg_DefaultLoggerConfig\<lparr>pkg_Level := ''verbose''\<rparr>)
           None init_world)) = InfoLevel"
  using C9_unrecognized_level_is_info [of "''verbose''" "DefaultLoggerConfig\<lparr>Level := ''verbose''\<rparr>"
      "pkg_DefaultLoggerConfig\<lparr>pkg_Level := ''verbose''\<rparr>" "\<lambda>p. True" "''svc''" None init_world]
  by simp

text \<open>
  C10. Attach-then-retrieve: for every context, every store (with or without a global
  logger) and every handle \<open>l\<close> that is not nil, \<^verbatim>\<open>FromContext(WithContext(ctx, l))\<close> is \<open>l\<close>.
\<close>

theorem C10_attach_then_retrieve:
  "l \<noteq> None \<Longrightarrow> FromContext w (WithContext c l) = l"
  by (simp add: FromContext_def WithContext_def)

text \<open>
  The theorem at work, with no global logger and with one registered.
\<close>

theorem C10_witness:
  "Some NewNop \<noteq> None
   \<and> FromContext init_world (WithContext Background (Some NewNop)) = Some NewNop
   \<and> FromContext (init_world\<lparr>globalLogger := Some (NewNop\<lparr>addCaller := True\<rparr>)\<rparr>)
        (WithContext (WithValue Background (OtherKey 1) (OtherValue 2)) (Some NewNop)) = Some NewNop"
  using C10_attach_then_retrieve [of "Some NewNop" init_world Background]
    C10_attach_then_retrieve [of "Some NewNop" "init_world\<lparr>globalLogger := Some (NewNop\<lparr>addCaller := True\<rparr>)\<rparr>"
       "WithValue Background (OtherKey 1) (OtherValue 2)"]
  by simp

end
